theory Spec2Isabelle
  imports Main "HOL-Library.Multiset" "HOL-Library.Char_ord" "HOL-Library.List_Lexorder"
begin

section \<open>Go values used by the request package\<close>

text \<open>
  The package \<open>request\<close> (the HTTP request builder and executor) is embedded function by
  function. A Go \<open>string\<close> and a \<open>[]byte\<close> are both byte sequences; \<open>time.Duration\<close>
  and the integer fields are integers. A nil slice and an empty slice are the same list
  (the source only ever takes their \<open>len\<close> or ranges over them). A pointer that may be
  nil is an \<open>option\<close>.

  Left out are the \<open>fatal\<close> loggers, which nothing calls, the reader variants of the
  codecs, and \<open>FetchXMLToObject\<close> and \<open>FetchObjectWithSerializer\<close>, which only pass
  their deserializer to \<open>deserialize\<close>.
\<close>

type_synonym bytes = string
type_synonym duration = int

text \<open>
  Errors. \<open>External\<close> is an error produced outside the package (net/http, crypto/tls,
  a codec, a mock handler). The package wraps errors with the library go-exception,
  modelled by what its documentation states: \<open>exception.New\<close> makes a fresh exception,
  \<open>exception.Wrap\<close> maps nil to nil, keeps an exception as it is and wraps any other
  error retaining it as the cause, \<open>exception.WrapMany\<close> nests the non-nil errors it is
  given.
\<close>

datatype error =
    External string
  | Exception string
  | Wrapped error
  | Nested error error

definition exception_New :: "string \<Rightarrow> error" where
  "exception_New message = Exception message"

fun Wrap_error :: "error \<Rightarrow> error" where
  "Wrap_error (External s) = Wrapped (External s)"
| "Wrap_error e = e"

definition exception_Wrap :: "error option \<Rightarrow> error option" where
  "exception_Wrap err = (case err of None \<Rightarrow> None | Some e \<Rightarrow> Some (Wrap_error e))"

fun exception_WrapMany :: "error option list \<Rightarrow> error option" where
  "exception_WrapMany [] = None"
| "exception_WrapMany (None # es) = exception_WrapMany es"
| "exception_WrapMany (Some e # es) =
     (case exception_WrapMany es of
        None \<Rightarrow> Some (Wrap_error e)
      | Some inner \<Rightarrow> Some (Nested (Wrap_error e) inner))"

text \<open>
  Run-time panics of Go that the source can reach: dereferencing a nil pointer, indexing a
  slice out of range, writing to a nil map. A function that can panic returns an
  \<open>outcome\<close>.
\<close>

datatype panic = NilDereference | IndexOutOfRange | NilMapWrite

datatype 'a outcome = Panic panic | Return 'a

subsection \<open>String helpers\<close>

definition isEmpty :: "string \<Rightarrow> bool" where
  "isEmpty str = (length str = 0)"

text \<open>\<open>strings.Join(elems, sep)\<close>.\<close>

fun strings_Join :: "string list \<Rightarrow> string \<Rightarrow> string" where
  "strings_Join [] sep = []"
| "strings_Join [x] sep = x"
| "strings_Join (x # y # ys) sep = x @ sep @ strings_Join (y # ys) sep"

text \<open>
  \<open>strings.Split(s, sep)\<close> for a one-byte separator, the only use the source makes of it:
  the substrings between the separators, \<open>[""]\<close> for the empty string.
\<close>

fun strings_Split :: "string \<Rightarrow> char \<Rightarrow> string list" where
  "strings_Split [] sep = [[]]"
| "strings_Split (c # cs) sep =
     (if c = sep then [] # strings_Split cs sep
      else (case strings_Split cs sep of
              [] \<Rightarrow> [[c]]
            | w # ws \<Rightarrow> (c # w) # ws))"

subsection \<open>url.Values and http.Header\<close>

text \<open>
  Both are Go maps from a string to a list of strings. A field of the request that holds
  one is an \<open>option\<close>: \<open>None\<close> is the nil map, which the setters test for before they
  write. In a response and in the response meta, where the source only reads the map, the
  nil map is the empty map.
\<close>

type_synonym Values = "string \<rightharpoonup> string list"

definition Values_len :: "Values option \<Rightarrow> nat" where
  "Values_len v = (case v of None \<Rightarrow> 0 | Some m \<Rightarrow> card (dom m))"

definition Values_lookup :: "Values \<Rightarrow> string \<Rightarrow> string list" where
  "Values_lookup m key = (case m key of None \<Rightarrow> [] | Some vs \<Rightarrow> vs)"

definition Values_Set :: "string \<Rightarrow> string \<Rightarrow> Values \<Rightarrow> Values" where
  "Values_Set key val m = m(key \<mapsto> [val])"

definition Values_Add :: "string \<Rightarrow> string \<Rightarrow> Values \<Rightarrow> Values" where
  "Values_Add key val m = m(key \<mapsto> Values_lookup m key @ [val])"

text \<open>
  \<open>for key := range m\<close> visits the keys of a map in an order the Go runtime chooses.
  Where the model has to iterate it uses \<open>range_keys\<close>, the keys in ascending order,
  which is one of the orders the runtime may choose.
\<close>

definition range_keys :: "Values \<Rightarrow> string list" where
  "range_keys m = sorted_list_of_set (dom m)"

text \<open>
  \<open>Values.Encode\<close>: the keys are collected by a \<open>range\<close> over the map (in the order
  \<open>ks\<close>), sorted, and each value is written as \<open>key=value\<close> with both sides escaped,
  joined by \<open>&\<close>. The escaping function \<open>url.QueryEscape\<close> is a parameter.
\<close>

definition Encode_key :: "(string \<Rightarrow> string) \<Rightarrow> string \<Rightarrow> string list \<Rightarrow> string \<Rightarrow> string" where
  "Encode_key esc k vs buf =
     fold (\<lambda>v b. (if 0 < length b then b @ ''&'' else b) @ esc k @ ''='' @ esc v) vs buf"

definition Values_Encode_range :: "(string \<Rightarrow> string) \<Rightarrow> string list \<Rightarrow> Values option \<Rightarrow> string" where
  "Values_Encode_range esc ks v =
     (if Values_len v = 0 then []
      else (case v of
              None \<Rightarrow> []
            | Some m \<Rightarrow> fold (\<lambda>k buf. Encode_key esc k (Values_lookup m k) buf) (sort ks) []))"

definition Values_Encode :: "(string \<Rightarrow> string) \<Rightarrow> Values option \<Rightarrow> string" where
  "Values_Encode esc v =
     Values_Encode_range esc (case v of None \<Rightarrow> [] | Some m \<Rightarrow> range_keys m) v"

text \<open>\<open>Header.Set(key, value)\<close> stores under the canonical form of the key.\<close>

definition Header_Set :: "(string \<Rightarrow> string) \<Rightarrow> string \<Rightarrow> string \<Rightarrow> Values \<Rightarrow> Values" where
  "Header_Set canon key val h = h(canon key \<mapsto> [val])"

subsection \<open>URLs, responses, transports\<close>

record URL =
  url_Scheme :: string
  url_Host :: string
  url_Path :: string
  url_RawQuery :: string

text \<open>
  A response body is an \<open>io.ReadCloser\<close>: what \<open>ioutil.ReadAll\<close> reads from it, the
  error the read ends with (nil at end of file) and the error \<open>Close\<close> returns.
\<close>

record ReadCloser =
  rc_data :: bytes
  rc_read_err :: "error option"
  rc_close_err :: "error option"

definition ioutil_ReadAll :: "ReadCloser \<Rightarrow> bytes \<times> error option" where
  "ioutil_ReadAll rc = (rc_data rc, rc_read_err rc)"

definition ioutil_NopCloser :: "bytes \<Rightarrow> ReadCloser" where
  "ioutil_NopCloser buff = \<lparr>rc_data = buff, rc_read_err = None, rc_close_err = None\<rparr>"

record Response =
  res_StatusCode :: int
  res_ContentLength :: int
  res_Header :: Values
  res_Body :: "ReadCloser option"

definition http_StatusOK :: int where
  "http_StatusOK = 200"

record HTTPResponseMeta =
  meta_StatusCode :: int
  meta_ContentLength :: int
  meta_ContentEncoding :: string
  meta_ContentType :: string
  meta_Headers :: Values

record HTTPRequestMeta =
  rm_Verb :: string
  rm_URL :: URL
  rm_Headers :: Values
  rm_Body :: bytes

datatype certificate = X509KeyPair string string

record Dialer =
  dialer_Timeout :: duration
  dialer_KeepAlive :: duration

text \<open>
  The dial function of a transport: the platform's own, the logging dialer that
  \<open>createHTTPTransport\<close> installs, or a function of the caller's (identified by a tag).
\<close>

datatype dial = DefaultDial | LoggedDial Dialer | CallerDial nat

record Transport =
  DisableCompression :: bool
  DisableKeepAlives :: bool
  Dial :: dial
  TLSClientConfig :: "certificate list option"

text \<open>An \<open>http.Client\<close>; no transport means \<open>http.DefaultTransport\<close>.\<close>

record Client =
  client_Transport :: "Transport option"
  client_Timeout :: duration

subsection \<open>The platform\<close>

text \<open>
  What the package calls in the Go standard library is a parameter of the model: URL
  parsing and escaping, header canonicalisation, the construction of an \<open>http.Request\<close>
  (of the opaque type \<open>'req\<close>) and its setters, certificate loading, the client's
  round trip, and the JSON and XML codecs over objects of type \<open>'obj\<close>; so are
  \<open>fmt.Sprintf\<close> and go-util's \<open>DecomposeToPostDataAsJSON\<close>, which turns an object
  into a list of key and value pairs.
  \<open>http_NewRequest verb u body\<close> stands for
  \<open>http.NewRequest(verb, u.String(), bytes.NewBuffer(body))\<close>; a decoder takes the bytes
  and the destination's current value and returns the destination's new value.
\<close>

record ('req, 'cookie, 'obj) platform =
  url_QueryEscape :: "string \<Rightarrow> string"
  CanonicalMIMEHeaderKey :: "string \<Rightarrow> string"
  url_Parse :: "string \<Rightarrow> URL option"
  http_NewRequest :: "string \<Rightarrow> URL \<Rightarrow> bytes \<Rightarrow> error + 'req"
  req_URL :: "'req \<Rightarrow> URL"
  req_SetBasicAuth :: "string \<Rightarrow> string \<Rightarrow> 'req \<Rightarrow> 'req"
  req_AddCookie :: "'cookie \<Rightarrow> 'req \<Rightarrow> 'req"
  req_Header_Set :: "string \<Rightarrow> string \<Rightarrow> 'req \<Rightarrow> 'req"
  tls_LoadX509KeyPair :: "string \<Rightarrow> string \<Rightarrow> error + certificate"
  client_Do :: "Client \<Rightarrow> 'req \<Rightarrow> Response option \<times> error option"
  json_Marshal :: "'obj \<Rightarrow> bytes \<times> error option"
  json_Decode :: "bytes \<Rightarrow> 'obj \<Rightarrow> 'obj \<times> error option"
  xml_Marshal :: "'obj \<Rightarrow> bytes \<times> error option"
  xml_Decode :: "bytes \<Rightarrow> 'obj \<Rightarrow> 'obj \<times> error option"
  fmt_Sprintf :: "string \<Rightarrow> 'obj list \<Rightarrow> string"
  util_DecomposeToPostDataAsJSON :: "'obj \<Rightarrow> (string \<times> string) list"

section \<open>HTTPRequest\<close>

text \<open>
  Callbacks without a result (\<open>ResponseHandler\<close>, \<open>OutgoingRequestHandler\<close>) are opaque
  function values identified by a tag; calling one is an event of the trace. A
  \<open>CreateTransportHandler\<close> receives the transport by pointer and may change it, a
  \<open>MockedResponseHandler\<close> returns a flag, a meta pointer (possibly nil), the body bytes
  and an error.
\<close>

datatype callback = Callback nat

datatype logger = StdoutLogger | CallerLogger nat

type_synonym CreateTransportHandler = "URL \<Rightarrow> Transport \<Rightarrow> Transport"

type_synonym MockedResponseHandler =
  "string \<Rightarrow> URL \<Rightarrow> bool \<times> HTTPResponseMeta option \<times> bytes \<times> error option"

definition HTTPRequestLogLevelErrors :: int where
  "HTTPRequestLogLevelErrors = 1"

definition HTTPRequestLogLevelVerbose :: int where
  "HTTPRequestLogLevelVerbose = 2"

definition HTTPRequestLogLevelDebug :: int where
  "HTTPRequestLogLevelDebug = 3"

record 'cookie HTTPRequest =
  Scheme :: string
  Host :: string
  Path :: string
  QueryString :: "Values option"
  Header :: "Values option"
  PostData :: "Values option"
  Cookies :: "'cookie list"
  BasicAuthUsername :: string
  BasicAuthPassword :: string
  Verb :: string
  ContentType :: string
  Timeout :: duration
  TLSCertPath :: string
  TLSKeyPath :: string
  Body :: bytes
  KeepAlive :: bool
  Label :: string
  Logger :: "logger option"
  LogLevel :: int
  transport :: "Transport option"
  createTransportHandler :: "CreateTransportHandler option"
  incomingResponseHandler :: "callback option"
  outgoingRequestHandler :: "callback option"
  mockHandler :: "MockedResponseHandler option"

text \<open>\<open>NewHTTPRequest\<close>: the zero value with scheme \<open>http\<close> and verb \<open>GET\<close>.\<close>

definition NewHTTPRequest :: "'cookie HTTPRequest" where
  "NewHTTPRequest =
     \<lparr>Scheme = ''http'', Host = [], Path = [], QueryString = None, Header = None,
      PostData = None, Cookies = [], BasicAuthUsername = [], BasicAuthPassword = [],
      Verb = ''GET'', ContentType = [], Timeout = 0, TLSCertPath = [], TLSKeyPath = [],
      Body = [], KeepAlive = False, Label = [], Logger = None, LogLevel = 0,
      transport = None, createTransportHandler = None, incomingResponseHandler = None,
      outgoingRequestHandler = None, mockHandler = None\<rparr>"

subsection \<open>The fluent setters\<close>

text \<open>
  Each setter mutates the request in place and returns it; the model returns the new
  request.
\<close>

definition OnResponse :: "callback option \<Rightarrow> 'c HTTPRequest \<Rightarrow> 'c HTTPRequest" where
  "OnResponse hook hr = hr\<lparr>incomingResponseHandler := hook\<rparr>"

definition OnCreateTransport :: "CreateTransportHandler option \<Rightarrow> 'c HTTPRequest \<Rightarrow> 'c HTTPRequest" where
  "OnCreateTransport hook hr = hr\<lparr>createTransportHandler := hook\<rparr>"

definition OnRequest :: "callback option \<Rightarrow> 'c HTTPRequest \<Rightarrow> 'c HTTPRequest" where
  "OnRequest hook hr = hr\<lparr>outgoingRequestHandler := hook\<rparr>"

definition WithLabel :: "string \<Rightarrow> 'c HTTPRequest \<Rightarrow> 'c HTTPRequest" where
  "WithLabel label hr = hr\<lparr>Label := label\<rparr>"

definition WithMockedResponse :: "MockedResponseHandler option \<Rightarrow> 'c HTTPRequest \<Rightarrow> 'c HTTPRequest" where
  "WithMockedResponse hook hr = hr\<lparr>mockHandler := hook\<rparr>"

definition WithLogging :: "'c HTTPRequest \<Rightarrow> 'c HTTPRequest" where
  "WithLogging hr = hr\<lparr>LogLevel := HTTPRequestLogLevelErrors, Logger := Some StdoutLogger\<rparr>"

definition WithLogLevel :: "int \<Rightarrow> 'c HTTPRequest \<Rightarrow> 'c HTTPRequest" where
  "WithLogLevel logLevel hr = hr\<lparr>LogLevel := logLevel\<rparr>"

definition WithLogger :: "int \<Rightarrow> logger option \<Rightarrow> 'c HTTPRequest \<Rightarrow> 'c HTTPRequest" where
  "WithLogger logLevel lg hr = hr\<lparr>LogLevel := logLevel, Logger := lg\<rparr>"

definition WithTransport :: "Transport option \<Rightarrow> 'c HTTPRequest \<Rightarrow> 'c HTTPRequest" where
  "WithTransport t hr = hr\<lparr>transport := t\<rparr>"

definition WithContentType :: "string \<Rightarrow> 'c HTTPRequest \<Rightarrow> 'c HTTPRequest" where
  "WithContentType contentType hr = hr\<lparr>ContentType := contentType\<rparr>"

definition WithScheme :: "string \<Rightarrow> 'c HTTPRequest \<Rightarrow> 'c HTTPRequest" where
  "WithScheme scheme hr = hr\<lparr>Scheme := scheme\<rparr>"

definition WithHost :: "string \<Rightarrow> 'c HTTPRequest \<Rightarrow> 'c HTTPRequest" where
  "WithHost host hr = hr\<lparr>Host := host\<rparr>"

definition WithPath :: "string \<Rightarrow> 'c HTTPRequest \<Rightarrow> 'c HTTPRequest" where
  "WithPath path hr = hr\<lparr>Path := path\<rparr>"

definition WithPathf ::
  "('r, 'c, 'o) platform \<Rightarrow> string \<Rightarrow> 'o list \<Rightarrow> 'c HTTPRequest \<Rightarrow> 'c HTTPRequest" where
  "WithPathf P format args hr = hr\<lparr>Path := fmt_Sprintf P format args\<rparr>"

text \<open>
  \<open>util.CombinePathComponents\<close>: one leading and one trailing slash are cut from each
  component, and a slash is written after every component but the last.
\<close>

definition trim_slashes :: "string \<Rightarrow> string" where
  "trim_slashes component =
     (let workingComponent =
            (case component of
               [] \<Rightarrow> []
             | c # cs \<Rightarrow> if c = CHR ''/'' then cs else component)
      in if workingComponent \<noteq> [] \<and> last workingComponent = CHR ''/''
         then butlast workingComponent else workingComponent)"

fun CombinePathComponents :: "string list \<Rightarrow> string" where
  "CombinePathComponents [] = []"
| "CombinePathComponents [component] = trim_slashes component"
| "CombinePathComponents (component # rest) =
     trim_slashes component @ ''/'' @ CombinePathComponents rest"

definition WithCombinedPath :: "string list \<Rightarrow> 'c HTTPRequest \<Rightarrow> 'c HTTPRequest" where
  "WithCombinedPath components hr = hr\<lparr>Path := CombinePathComponents components\<rparr>"

definition WithHeader ::
  "('r, 'c, 'o) platform \<Rightarrow> string \<Rightarrow> string \<Rightarrow> 'c HTTPRequest \<Rightarrow> 'c HTTPRequest" where
  "WithHeader P field val hr =
     (let hr1 = (if Header hr = None then hr\<lparr>Header := Some Map.empty\<rparr> else hr)
      in hr1\<lparr>Header := map_option (Header_Set (CanonicalMIMEHeaderKey P) field val) (Header hr1)\<rparr>)"

definition WithKeepAlives :: "('r, 'c, 'o) platform \<Rightarrow> 'c HTTPRequest \<Rightarrow> 'c HTTPRequest" where
  "WithKeepAlives P hr = WithHeader P ''Connection'' ''keep-alive'' (hr\<lparr>KeepAlive := True\<rparr>)"

definition WithQueryString :: "string \<Rightarrow> string \<Rightarrow> 'c HTTPRequest \<Rightarrow> 'c HTTPRequest" where
  "WithQueryString field val hr =
     (let hr1 = (if QueryString hr = None then hr\<lparr>QueryString := Some Map.empty\<rparr> else hr)
      in hr1\<lparr>QueryString := map_option (Values_Add field val) (QueryString hr1)\<rparr>)"

definition WithCookie :: "'c \<Rightarrow> 'c HTTPRequest \<Rightarrow> 'c HTTPRequest" where
  "WithCookie cookie hr = hr\<lparr>Cookies := Cookies hr @ [cookie]\<rparr>"

definition WithPostData :: "string \<Rightarrow> string \<Rightarrow> 'c HTTPRequest \<Rightarrow> 'c HTTPRequest" where
  "WithPostData field val hr =
     (let hr1 = (if PostData hr = None then hr\<lparr>PostData := Some Map.empty\<rparr> else hr)
      in hr1\<lparr>PostData := map_option (Values_Add field val) (PostData hr1)\<rparr>)"

definition WithPostDataFromObject ::
  "('r, 'c, 'o) platform \<Rightarrow> 'o \<Rightarrow> 'c HTTPRequest \<Rightarrow> 'c HTTPRequest" where
  "WithPostDataFromObject P object hr =
     fold (\<lambda>item h. WithPostData (fst item) (snd item) h)
          (util_DecomposeToPostDataAsJSON P object) hr"

definition WithBasicAuth :: "string \<Rightarrow> string \<Rightarrow> 'c HTTPRequest \<Rightarrow> 'c HTTPRequest" where
  "WithBasicAuth username password hr =
     hr\<lparr>BasicAuthUsername := username, BasicAuthPassword := password\<rparr>"

definition WithTimeout :: "duration \<Rightarrow> 'c HTTPRequest \<Rightarrow> 'c HTTPRequest" where
  "WithTimeout timeout hr = hr\<lparr>Timeout := timeout\<rparr>"

definition WithTLSCert :: "string \<Rightarrow> 'c HTTPRequest \<Rightarrow> 'c HTTPRequest" where
  "WithTLSCert certPath hr = hr\<lparr>TLSCertPath := certPath\<rparr>"

definition WithTLSKey :: "string \<Rightarrow> 'c HTTPRequest \<Rightarrow> 'c HTTPRequest" where
  "WithTLSKey keyPath hr = hr\<lparr>TLSKeyPath := keyPath\<rparr>"

definition WithVerb :: "string \<Rightarrow> 'c HTTPRequest \<Rightarrow> 'c HTTPRequest" where
  "WithVerb verb hr = hr\<lparr>Verb := verb\<rparr>"

definition AsGet :: "'c HTTPRequest \<Rightarrow> 'c HTTPRequest" where
  "AsGet hr = hr\<lparr>Verb := ''GET''\<rparr>"

definition AsPost :: "'c HTTPRequest \<Rightarrow> 'c HTTPRequest" where
  "AsPost hr = hr\<lparr>Verb := ''POST''\<rparr>"

definition AsPut :: "'c HTTPRequest \<Rightarrow> 'c HTTPRequest" where
  "AsPut hr = hr\<lparr>Verb := ''PUT''\<rparr>"

definition AsPatch :: "'c HTTPRequest \<Rightarrow> 'c HTTPRequest" where
  "AsPatch hr = hr\<lparr>Verb := ''PATCH''\<rparr>"

definition AsDelete :: "'c HTTPRequest \<Rightarrow> 'c HTTPRequest" where
  "AsDelete hr = hr\<lparr>Verb := ''DELETE''\<rparr>"

definition WithRawBody :: "bytes \<Rightarrow> 'c HTTPRequest \<Rightarrow> 'c HTTPRequest" where
  "WithRawBody body hr = hr\<lparr>Body := body\<rparr>"

text \<open>\<open>WithSerializedBody\<close> drops the serializer's error and keeps its bytes.\<close>

definition WithSerializedBody ::
  "'o \<Rightarrow> ('o \<Rightarrow> bytes \<times> error option) \<Rightarrow> 'c HTTPRequest \<Rightarrow> 'c HTTPRequest" where
  "WithSerializedBody object serialize hr = WithRawBody (fst (serialize object)) hr"

definition serializeJSON :: "('r, 'c, 'o) platform \<Rightarrow> 'o \<Rightarrow> bytes \<times> error option" where
  "serializeJSON P object = json_Marshal P object"

definition serializeXML :: "('r, 'c, 'o) platform \<Rightarrow> 'o \<Rightarrow> bytes \<times> error option" where
  "serializeXML P object = xml_Marshal P object"

definition WithJSONBody :: "('r, 'c, 'o) platform \<Rightarrow> 'o \<Rightarrow> 'c HTTPRequest \<Rightarrow> 'c HTTPRequest" where
  "WithJSONBody P object hr =
     WithContentType ''application/json'' (WithSerializedBody object (serializeJSON P) hr)"

definition WithXMLBody :: "('r, 'c, 'o) platform \<Rightarrow> 'o \<Rightarrow> 'c HTTPRequest \<Rightarrow> 'c HTTPRequest" where
  "WithXMLBody P object hr =
     WithContentType ''application/xml'' (WithSerializedBody object (serializeXML P) hr)"

text \<open>
  \<open>WithURL\<close>: the error of \<open>url.Parse\<close> is dropped, so a failed parse leaves a nil URL
  whose fields are then read. Each non-empty parameter of the raw query is split at
  \<open>=\<close> and the first two parts are stored with \<open>Set\<close>.
\<close>

fun WithURL_params :: "string list \<Rightarrow> 'c HTTPRequest \<Rightarrow> 'c HTTPRequest outcome" where
  "WithURL_params [] hr = Return hr"
| "WithURL_params (param # params) hr =
     (if param \<noteq> [] then
        (case strings_Split param (CHR ''='') of
           k # v # rest \<Rightarrow>
             (case QueryString hr of
                None \<Rightarrow> Panic NilMapWrite
              | Some q \<Rightarrow> WithURL_params params (hr\<lparr>QueryString := Some (Values_Set k v q)\<rparr>))
         | _ \<Rightarrow> Panic IndexOutOfRange)
      else WithURL_params params hr)"

definition WithURL ::
  "('r, 'c, 'o) platform \<Rightarrow> string \<Rightarrow> 'c HTTPRequest \<Rightarrow> 'c HTTPRequest outcome" where
  "WithURL P urlString hr =
     (case url_Parse P urlString of
        None \<Rightarrow> Panic NilDereference
      | Some workingURL \<Rightarrow>
          (let hr1 = hr\<lparr>Scheme := url_Scheme workingURL, Host := url_Host workingURL,
                         Path := url_Path workingURL\<rparr>;
               params = strings_Split (url_RawQuery workingURL) (CHR ''&'');
               hr2 = hr1\<lparr>QueryString := Some Map.empty\<rparr>
           in WithURL_params params hr2))"

subsection \<open>Assembling the request\<close>

text \<open>
  \<open>CreateURL\<close> builds the URL from the scheme, host and path and the encoded query
  string. \<open>CreateURL_range\<close> is the same code with the order \<open>ks\<close> in which the runtime's
  \<open>range\<close> inside \<open>Encode\<close> happens to visit the keys made explicit.
\<close>

definition CreateURL_range ::
  "('r, 'c, 'o) platform \<Rightarrow> string list \<Rightarrow> 'c HTTPRequest \<Rightarrow> URL" where
  "CreateURL_range P ks hr =
     \<lparr>url_Scheme = Scheme hr, url_Host = Host hr, url_Path = Path hr,
      url_RawQuery = Values_Encode_range (url_QueryEscape P) ks (QueryString hr)\<rparr>"

definition CreateURL :: "('r, 'c, 'o) platform \<Rightarrow> 'c HTTPRequest \<Rightarrow> URL" where
  "CreateURL P hr =
     \<lparr>url_Scheme = Scheme hr, url_Host = Host hr, url_Path = Path hr,
      url_RawQuery = Values_Encode (url_QueryEscape P) (QueryString hr)\<rparr>"

definition RequestBody :: "('r, 'c, 'o) platform \<Rightarrow> 'c HTTPRequest \<Rightarrow> bytes" where
  "RequestBody P hr =
     (if 0 < length (Body hr) then Body hr
      else if 0 < Values_len (PostData hr) then Values_Encode (url_QueryEscape P) (PostData hr)
      else [])"

definition Headers :: "('r, 'c, 'o) platform \<Rightarrow> 'c HTTPRequest \<Rightarrow> Values" where
  "Headers P hr =
     (let canon = CanonicalMIMEHeaderKey P;
          headers = (case Header hr of
                       None \<Rightarrow> Map.empty
                     | Some h \<Rightarrow>
                         fold (\<lambda>key hs. fold (\<lambda>value. Header_Set canon key value)
                                           (Values_lookup h key) hs)
                              (range_keys h) Map.empty);
          headers = (if 0 < Values_len (PostData hr)
                     then Header_Set canon ''Content-Type'' ''application/x-www-form-urlencoded'' headers
                     else headers);
          headers = (if \<not> isEmpty (ContentType hr)
                     then Header_Set canon ''Content-Type'' (ContentType hr) headers
                     else headers)
      in headers)"

definition RequestMeta :: "('r, 'c, 'o) platform \<Rightarrow> 'c HTTPRequest \<Rightarrow> HTTPRequestMeta" where
  "RequestMeta P hr =
     \<lparr>rm_Verb = Verb hr, rm_URL = CreateURL P hr, rm_Headers = Headers P hr,
      rm_Body = RequestBody P hr\<rparr>"

text \<open>
  \<open>CreateHTTPRequest\<close> returns either the request or an error (the Go pair has exactly
  one non-nil component).
\<close>

definition CreateHTTPRequest :: "('r, 'c, 'o) platform \<Rightarrow> 'c HTTPRequest \<Rightarrow> error + 'r" where
  "CreateHTTPRequest P hr =
     (let workingURL = CreateURL P hr in
      if 0 < length (Body hr) \<and> 0 < Values_len (PostData hr)
      then Inl (exception_New ''Cant set both a body and have post data.'')
      else
        (case http_NewRequest P (Verb hr) workingURL (RequestBody P hr) of
           Inl err \<Rightarrow> Inl (Wrap_error err)
         | Inr req \<Rightarrow>
             (let req = (if \<not> isEmpty (BasicAuthUsername hr)
                         then req_SetBasicAuth P (BasicAuthUsername hr) (BasicAuthPassword hr) req
                         else req);
                  req = fold (req_AddCookie P) (Cookies hr) req;
                  hs = Headers P hr;
                  req = fold (\<lambda>key r. fold (\<lambda>value. req_Header_Set P key value)
                                          (Values_lookup hs key) r)
                             (range_keys hs) req
              in Inr req)))"

subsection \<open>Events\<close>

text \<open>
  What an execution does to the outside is recorded as a trace of events: the hooks it
  calls, the lines it logs, the call of the mock handler, the loading of the client
  certificate, the round trip \<open>client.Do\<close> (the only event that reaches the network; the
  dial function of the client's transport is called inside it) and the closing of a
  response body.
\<close>

datatype log_message =
    Service_Request string URL
  | Service_Response bytes
  | Using_Provided_Transport
  | Creating_Custom_Transport
  | Transport_Enabled_For_KeepAlive duration

datatype 'r event =
    RequestHook callback HTTPRequestMeta
  | ResponseHook callback HTTPResponseMeta bytes
  | LogLine int log_message
  | MockCalled string URL
  | LoadX509KeyPair string string
  | TransportHook URL Transport
  | ClientDo Client 'r
  | BodyClosed

fun transport_event :: "'r event \<Rightarrow> bool" where
  "transport_event (ClientDo c r) = True"
| "transport_event (LoadX509KeyPair c k) = True"
| "transport_event (TransportHook u t) = True"
| "transport_event (LogLine l Using_Provided_Transport) = True"
| "transport_event (LogLine l Creating_Custom_Transport) = True"
| "transport_event (LogLine l (Transport_Enabled_For_KeepAlive d)) = True"
| "transport_event e = False"

text \<open>\<open>hr.log\<close> and \<open>hr.logf\<close> print when a logger is set and the level passes the filter.\<close>

definition hr_logf :: "'c HTTPRequest \<Rightarrow> int \<Rightarrow> log_message \<Rightarrow> 'r event list" where
  "hr_logf hr logLevel msg =
     (if Logger hr \<noteq> None \<and> logLevel \<le> LogLevel hr then [LogLine logLevel msg] else [])"

definition hr_log :: "'c HTTPRequest \<Rightarrow> int \<Rightarrow> log_message \<Rightarrow> 'r event list" where
  "hr_log hr logLevel msg =
     (if Logger hr \<noteq> None \<and> logLevel \<le> LogLevel hr then [LogLine logLevel msg] else [])"

definition logRequest :: "('r, 'c, 'o) platform \<Rightarrow> 'c HTTPRequest \<Rightarrow> 'r event list" where
  "logRequest P hr =
     (let meta = RequestMeta P hr in
      (case outgoingRequestHandler hr of
         None \<Rightarrow> []
       | Some hook \<Rightarrow> [RequestHook hook meta])
      @ hr_logf hr HTTPRequestLogLevelVerbose (Service_Request (rm_Verb meta) (rm_URL meta)))"

definition logResponse :: "'c HTTPRequest \<Rightarrow> HTTPResponseMeta \<Rightarrow> bytes \<Rightarrow> 'r event list" where
  "logResponse hr meta responseBody =
     (case incomingResponseHandler hr of
        None \<Rightarrow> []
      | Some hook \<Rightarrow> [ResponseHook hook meta responseBody])
     @ hr_logf hr HTTPRequestLogLevelVerbose (Service_Response responseBody)"

subsection \<open>The response meta\<close>

definition NewHTTPResponseMeta :: "Response option \<Rightarrow> HTTPResponseMeta" where
  "NewHTTPResponseMeta res =
     (let meta = \<lparr>meta_StatusCode = 0, meta_ContentLength = 0, meta_ContentEncoding = [],
                  meta_ContentType = [], meta_Headers = Map.empty\<rparr>
      in case res of
           None \<Rightarrow> meta
         | Some r \<Rightarrow>
             (let meta = meta\<lparr>meta_StatusCode := res_StatusCode r,
                              meta_ContentLength := res_ContentLength r\<rparr>;
                  meta = (case res_Header r ''Content-Type'' of
                            None \<Rightarrow> meta
                          | Some contentTypeHeader \<Rightarrow>
                              if 0 < length contentTypeHeader
                              then meta\<lparr>meta_ContentType := strings_Join contentTypeHeader '';''\<rparr>
                              else meta);
                  meta = (case res_Header r ''Content-Encoding'' of
                            None \<Rightarrow> meta
                          | Some contentEncodingHeader \<Rightarrow>
                              if 0 < length contentEncodingHeader
                              then meta\<lparr>meta_ContentEncoding := strings_Join contentEncodingHeader '';''\<rparr>
                              else meta)
              in meta\<lparr>meta_Headers := res_Header r\<rparr>))"

subsection \<open>Choosing the transport\<close>

definition requiresCustomTransport :: "'c HTTPRequest \<Rightarrow> bool" where
  "requiresCustomTransport hr =
     ((\<not> isEmpty (TLSCertPath hr) \<and> \<not> isEmpty (TLSKeyPath hr))
      \<or> transport hr \<noteq> None \<or> createTransportHandler hr \<noteq> None)"

definition time_Second :: duration where
  "time_Second = 1000000000"

text \<open>
  The end of \<open>createHTTPTransport\<close>: the creation hook, when registered, receives the
  target URL and the transport and may change the transport.
\<close>

definition createHTTPTransport_hook ::
  "('r, 'c, 'o) platform \<Rightarrow> 'c HTTPRequest \<Rightarrow> 'r event list \<Rightarrow> Transport \<Rightarrow>
     'r event list \<times> (error + Transport)" where
  "createHTTPTransport_hook P hr t tr =
     (case createTransportHandler hr of
        None \<Rightarrow> (t, Inr tr)
      | Some hook \<Rightarrow> (t @ [TransportHook (CreateURL P hr) tr], Inr (hook (CreateURL P hr) tr)))"

definition createHTTPTransport ::
  "('r, 'c, 'o) platform \<Rightarrow> 'c HTTPRequest \<Rightarrow> 'r event list \<times> (error + Transport)" where
  "createHTTPTransport P hr =
     (let t1 = hr_log hr HTTPRequestLogLevelDebug Creating_Custom_Transport;
          tr = \<lparr>DisableCompression = False, DisableKeepAlives = (\<not> KeepAlive hr),
                Dial = DefaultDial, TLSClientConfig = None\<rparr>;
          dialer = \<lparr>dialer_Timeout = 0, dialer_KeepAlive = 0\<rparr>;
          dialer = (if Timeout hr \<noteq> 0 then dialer\<lparr>dialer_Timeout := Timeout hr\<rparr> else dialer);
          t2 = (if KeepAlive hr
                then hr_logf hr HTTPRequestLogLevelDebug
                       (Transport_Enabled_For_KeepAlive (30 * time_Second))
                else []);
          dialer = (if KeepAlive hr then dialer\<lparr>dialer_KeepAlive := 30 * time_Second\<rparr> else dialer);
          tr = tr\<lparr>Dial := LoggedDial dialer\<rparr>
      in if \<not> isEmpty (TLSCertPath hr) \<and> \<not> isEmpty (TLSKeyPath hr)
         then
           (case tls_LoadX509KeyPair P (TLSCertPath hr) (TLSKeyPath hr) of
              Inl err \<Rightarrow>
                (t1 @ t2 @ [LoadX509KeyPair (TLSCertPath hr) (TLSKeyPath hr)], Inl (Wrap_error err))
            | Inr cert \<Rightarrow>
                createHTTPTransport_hook P hr
                  (t1 @ t2 @ [LoadX509KeyPair (TLSCertPath hr) (TLSKeyPath hr)])
                  (tr\<lparr>TLSClientConfig := Some [cert]\<rparr>))
         else createHTTPTransport_hook P hr (t1 @ t2) tr)"

definition getHTTPTransport ::
  "('r, 'c, 'o) platform \<Rightarrow> 'c HTTPRequest \<Rightarrow> 'r event list \<times> (error + Transport)" where
  "getHTTPTransport P hr =
     (case transport hr of
        Some t \<Rightarrow> (hr_log hr HTTPRequestLogLevelDebug Using_Provided_Transport, Inr t)
      | None \<Rightarrow> createHTTPTransport P hr)"

subsection \<open>Executing the request\<close>

text \<open>
  The part of \<open>FetchRawResponse\<close> after the mock block: resolve the transport when one
  is required, set the client's timeout, perform the round trip.
\<close>

definition client_Do_step ::
  "('r, 'c, 'o) platform \<Rightarrow> 'c HTTPRequest \<Rightarrow> 'r \<Rightarrow> 'r event list \<Rightarrow> Client \<Rightarrow>
     'r event list \<times> (Response option \<times> error option) outcome" where
  "client_Do_step P hr req t client =
     (let client = (if Timeout hr \<noteq> 0 then client\<lparr>client_Timeout := Timeout hr\<rparr> else client)
      in case client_Do P client req of
           (res, resErr) \<Rightarrow> (t @ [ClientDo client req], Return (res, exception_Wrap resErr)))"

definition client_round_trip ::
  "('r, 'c, 'o) platform \<Rightarrow> 'c HTTPRequest \<Rightarrow> 'r \<Rightarrow>
     'r event list \<times> (Response option \<times> error option) outcome" where
  "client_round_trip P hr req =
     (let client = \<lparr>client_Transport = None, client_Timeout = 0\<rparr> in
      if requiresCustomTransport hr then
        (case getHTTPTransport P hr of
           (t, Inl transportErr) \<Rightarrow> (t, Return (None, Some (Wrap_error transportErr)))
         | (t, Inr tr) \<Rightarrow> client_Do_step P hr req t (client\<lparr>client_Transport := Some tr\<rparr>))
      else client_Do_step P hr req [] client)"

text \<open>
  \<open>FetchRawResponse\<close>. A mock handler that reports a match supplies the status code and
  the headers through its meta pointer, which the source reads without a nil check.
\<close>

definition FetchRawResponse ::
  "('r, 'c, 'o) platform \<Rightarrow> 'c HTTPRequest \<Rightarrow>
     'r event list \<times> (Response option \<times> error option) outcome" where
  "FetchRawResponse P hr =
     (case CreateHTTPRequest P hr of
        Inl reqErr \<Rightarrow> ([], Return (None, Some reqErr))
      | Inr req \<Rightarrow>
          (let t1 = logRequest P hr in
           case mockHandler hr of
             None \<Rightarrow> (case client_round_trip P hr req of (t2, out) \<Rightarrow> (t1 @ t2, out))
           | Some handler \<Rightarrow>
               (case handler (Verb hr) (req_URL P req) of
                  (didMockResponse, mockedMeta, mockedResponse, mockedResponseErr) \<Rightarrow>
                    if didMockResponse then
                      (case mockedMeta of
                         None \<Rightarrow> (t1 @ [MockCalled (Verb hr) (req_URL P req)], Panic NilDereference)
                       | Some m \<Rightarrow>
                           (t1 @ [MockCalled (Verb hr) (req_URL P req)],
                            Return
                              (Some \<lparr>res_StatusCode = meta_StatusCode m,
                                     res_ContentLength = int (length mockedResponse),
                                     res_Header = meta_Headers m,
                                     res_Body = Some (ioutil_NopCloser mockedResponse)\<rparr>,
                               exception_Wrap mockedResponseErr)))
                    else
                      (case client_round_trip P hr req of
                         (t2, out) \<Rightarrow> (t1 @ [MockCalled (Verb hr) (req_URL P req)] @ t2, out)))))"

text \<open>
  \<open>ExecuteWithMeta\<close> closes the body when there is one; a failing close returns a nil
  meta with both errors.
\<close>

definition ExecuteWithMeta ::
  "('r, 'c, 'o) platform \<Rightarrow> 'c HTTPRequest \<Rightarrow>
     'r event list \<times> (HTTPResponseMeta option \<times> error option) outcome" where
  "ExecuteWithMeta P hr =
     (case FetchRawResponse P hr of
        (t, Panic p) \<Rightarrow> (t, Panic p)
      | (t, Return (res, err)) \<Rightarrow>
          (case (case res of None \<Rightarrow> None | Some r \<Rightarrow> res_Body r) of
             None \<Rightarrow> (t, Return (Some (NewHTTPResponseMeta res), exception_Wrap err))
           | Some body \<Rightarrow>
               (case rc_close_err body of
                  Some closeErr \<Rightarrow>
                    (t @ [BodyClosed],
                     Return (None, exception_WrapMany [exception_Wrap err, exception_Wrap (Some closeErr)]))
                | None \<Rightarrow>
                    (t @ [BodyClosed],
                     Return (Some (NewHTTPResponseMeta res), exception_Wrap err)))))"

definition Execute ::
  "('r, 'c, 'o) platform \<Rightarrow> 'c HTTPRequest \<Rightarrow> 'r event list \<times> error option outcome" where
  "Execute P hr =
     (case ExecuteWithMeta P hr of
        (t, Panic p) \<Rightarrow> (t, Panic p)
      | (t, Return (meta, err)) \<Rightarrow> (t, Return (exception_Wrap err)))"

text \<open>
  The fetch operations read the body. \<open>defer res.Body.Close()\<close> needs a response and a
  body; the close runs when the function returns and its error is dropped.
\<close>

definition FetchStringWithMeta ::
  "('r, 'c, 'o) platform \<Rightarrow> 'c HTTPRequest \<Rightarrow>
     'r event list \<times> (string \<times> HTTPResponseMeta option \<times> error option) outcome" where
  "FetchStringWithMeta P hr =
     (case FetchRawResponse P hr of
        (t, Panic p) \<Rightarrow> (t, Panic p)
      | (t, Return (res, err)) \<Rightarrow>
          (let meta = NewHTTPResponseMeta res in
           if err \<noteq> None then (t, Return ([], Some meta, exception_Wrap err))
           else
             (case (case res of None \<Rightarrow> None | Some r \<Rightarrow> res_Body r) of
                None \<Rightarrow> (t, Panic NilDereference)
              | Some body \<Rightarrow>
                  (case ioutil_ReadAll body of
                     (bs, Some readErr) \<Rightarrow>
                       (t @ [BodyClosed], Return ([], Some meta, exception_Wrap (Some readErr)))
                   | (bs, None) \<Rightarrow>
                       (let meta = meta\<lparr>meta_ContentLength := int (length bs)\<rparr>
                        in (t @ logResponse hr meta bs @ [BodyClosed],
                            Return (bs, Some meta, None)))))))"

definition FetchString ::
  "('r, 'c, 'o) platform \<Rightarrow> 'c HTTPRequest \<Rightarrow> 'r event list \<times> (string \<times> error option) outcome" where
  "FetchString P hr =
     (case FetchStringWithMeta P hr of
        (t, Panic p) \<Rightarrow> (t, Panic p)
      | (t, Return (responseStr, meta, err)) \<Rightarrow> (t, Return (responseStr, err)))"

subsection \<open>Deserializers\<close>

text \<open>
  A \<open>Deserializer\<close> is a closure over its destination: called with the body it changes
  the world \<open>'w\<close> outside the request and returns an error. For the JSON and XML
  deserializers the world is a store of objects and the destination an address in it.
\<close>

type_synonym 'w Deserializer = "bytes \<Rightarrow> 'w \<Rightarrow> error option \<times> 'w"

definition deserializeJSON ::
  "('r, 'c, 'o) platform \<Rightarrow> 'a \<Rightarrow> bytes \<Rightarrow> ('a \<Rightarrow> 'o) \<Rightarrow> error option \<times> ('a \<Rightarrow> 'o)" where
  "deserializeJSON P object body w =
     (case json_Decode P body (w object) of
        (v, decodeErr) \<Rightarrow> (exception_Wrap decodeErr, w(object := v)))"

definition deserializeXML ::
  "('r, 'c, 'o) platform \<Rightarrow> 'a \<Rightarrow> bytes \<Rightarrow> ('a \<Rightarrow> 'o) \<Rightarrow> error option \<times> ('a \<Rightarrow> 'o)" where
  "deserializeXML P object body w =
     (case xml_Decode P body (w object) of
        (v, decodeErr) \<Rightarrow> (decodeErr, w(object := v)))"

definition newJSONDeserializer :: "('r, 'c, 'o) platform \<Rightarrow> 'a \<Rightarrow> ('a \<Rightarrow> 'o) Deserializer" where
  "newJSONDeserializer P object = (\<lambda>body. deserializeJSON P object body)"

definition newXMLDeserializer :: "('r, 'c, 'o) platform \<Rightarrow> 'a \<Rightarrow> ('a \<Rightarrow> 'o) Deserializer" where
  "newXMLDeserializer P object = (\<lambda>body. deserializeXML P object body)"

definition deserialize ::
  "('r, 'c, 'o) platform \<Rightarrow> 'c HTTPRequest \<Rightarrow> 'w Deserializer option \<Rightarrow> 'w \<Rightarrow>
     'r event list \<times> (HTTPResponseMeta option \<times> error option) outcome \<times> 'w" where
  "deserialize P hr handler w =
     (case FetchRawResponse P hr of
        (t, Panic p) \<Rightarrow> (t, Panic p, w)
      | (t, Return (res, err)) \<Rightarrow>
          (let meta = NewHTTPResponseMeta res in
           if err \<noteq> None then (t, Return (Some meta, exception_Wrap err), w)
           else
             (case (case res of None \<Rightarrow> None | Some r \<Rightarrow> res_Body r) of
                None \<Rightarrow> (t, Panic NilDereference, w)
              | Some rc \<Rightarrow>
                  (case ioutil_ReadAll rc of
                     (body, Some readErr) \<Rightarrow>
                       (t @ [BodyClosed], Return (Some meta, exception_Wrap (Some readErr)), w)
                   | (body, None) \<Rightarrow>
                       (let meta = meta\<lparr>meta_ContentLength := int (length body)\<rparr>;
                            t2 = logResponse hr meta body
                        in case handler of
                             None \<Rightarrow> (t @ t2 @ [BodyClosed], Return (Some meta, None), w)
                           | Some h \<Rightarrow>
                               (case h body w of
                                  (herr, w') \<Rightarrow>
                                    (t @ t2 @ [BodyClosed],
                                     Return (Some meta, exception_Wrap herr), w')))))))"

definition deserializeWithError ::
  "('r, 'c, 'o) platform \<Rightarrow> 'c HTTPRequest \<Rightarrow> 'w Deserializer option \<Rightarrow>
     'w Deserializer option \<Rightarrow> 'w \<Rightarrow>
     'r event list \<times> (HTTPResponseMeta option \<times> error option) outcome \<times> 'w" where
  "deserializeWithError P hr okHandler errorHandler w =
     (case FetchRawResponse P hr of
        (t, Panic p) \<Rightarrow> (t, Panic p, w)
      | (t, Return (res, err)) \<Rightarrow>
          (let meta = NewHTTPResponseMeta res in
           if err \<noteq> None then (t, Return (Some meta, exception_Wrap err), w)
           else
             (case res of
                None \<Rightarrow> (t, Panic NilDereference, w)
              | Some r \<Rightarrow>
                  (case res_Body r of
                     None \<Rightarrow> (t, Panic NilDereference, w)
                   | Some rc \<Rightarrow>
                       (case ioutil_ReadAll rc of
                          (body, Some readErr) \<Rightarrow>
                            (t @ [BodyClosed], Return (Some meta, exception_Wrap (Some readErr)), w)
                        | (body, None) \<Rightarrow>
                            (let meta = meta\<lparr>meta_ContentLength := int (length body)\<rparr>;
                                 t2 = logResponse hr meta body;
                                 chosen = (if res_StatusCode r = http_StatusOK
                                           then okHandler else errorHandler)
                             in case chosen of
                                  None \<Rightarrow> (t @ t2 @ [BodyClosed], Return (Some meta, None), w)
                                | Some h \<Rightarrow>
                                    (case h body w of
                                       (herr, w') \<Rightarrow>
                                         (t @ t2 @ [BodyClosed],
                                          Return (Some meta, exception_Wrap herr), w'))))))))"

definition FetchJSONToObject ::
  "('r, 'c, 'o) platform \<Rightarrow> 'a \<Rightarrow> 'c HTTPRequest \<Rightarrow> ('a \<Rightarrow> 'o) \<Rightarrow>
     'r event list \<times> error option outcome \<times> ('a \<Rightarrow> 'o)" where
  "FetchJSONToObject P destination hr w =
     (case deserialize P hr (Some (newJSONDeserializer P destination)) w of
        (t, Panic p, w') \<Rightarrow> (t, Panic p, w')
      | (t, Return (meta, err), w') \<Rightarrow> (t, Return err, w'))"

definition FetchJSONToObjectWithMeta ::
  "('r, 'c, 'o) platform \<Rightarrow> 'a \<Rightarrow> 'c HTTPRequest \<Rightarrow> ('a \<Rightarrow> 'o) \<Rightarrow>
     'r event list \<times> (HTTPResponseMeta option \<times> error option) outcome \<times> ('a \<Rightarrow> 'o)" where
  "FetchJSONToObjectWithMeta P destination hr w =
     deserialize P hr (Some (newJSONDeserializer P destination)) w"

definition FetchJSONToObjectWithErrorHandler ::
  "('r, 'c, 'o) platform \<Rightarrow> 'a \<Rightarrow> 'a \<Rightarrow> 'c HTTPRequest \<Rightarrow> ('a \<Rightarrow> 'o) \<Rightarrow>
     'r event list \<times> (HTTPResponseMeta option \<times> error option) outcome \<times> ('a \<Rightarrow> 'o)" where
  "FetchJSONToObjectWithErrorHandler P successObject errorObject hr w =
     deserializeWithError P hr (Some (newJSONDeserializer P successObject))
       (Some (newJSONDeserializer P errorObject)) w"

definition FetchJSONError ::
  "('r, 'c, 'o) platform \<Rightarrow> 'a \<Rightarrow> 'c HTTPRequest \<Rightarrow> ('a \<Rightarrow> 'o) \<Rightarrow>
     'r event list \<times> (HTTPResponseMeta option \<times> error option) outcome \<times> ('a \<Rightarrow> 'o)" where
  "FetchJSONError P errorObject hr w =
     deserializeWithError P hr None (Some (newJSONDeserializer P errorObject)) w"

definition FetchXMLToObjectWithMeta ::
  "('r, 'c, 'o) platform \<Rightarrow> 'a \<Rightarrow> 'c HTTPRequest \<Rightarrow> ('a \<Rightarrow> 'o) \<Rightarrow>
     'r event list \<times> (HTTPResponseMeta option \<times> error option) outcome \<times> ('a \<Rightarrow> 'o)" where
  "FetchXMLToObjectWithMeta P destination hr w =
     deserialize P hr (Some (newXMLDeserializer P destination)) w"

definition FetchXMLToObjectWithErrorHandler ::
  "('r, 'c, 'o) platform \<Rightarrow> 'a \<Rightarrow> 'a \<Rightarrow> 'c HTTPRequest \<Rightarrow> ('a \<Rightarrow> 'o) \<Rightarrow>
     'r event list \<times> (HTTPResponseMeta option \<times> error option) outcome \<times> ('a \<Rightarrow> 'o)" where
  "FetchXMLToObjectWithErrorHandler P successObject errorObject hr w =
     deserializeWithError P hr (Some (newXMLDeserializer P successObject))
       (Some (newXMLDeserializer P errorObject)) w"

subsection \<open>Sequences of configuration calls\<close>

text \<open>
  A configuration call is one of the fluent setters of the package together with its
  arguments. A chain of calls runs from left to right and stops at the first panic (only
  \<open>WithURL\<close> can panic).
\<close>

datatype ('c, 'o) config_call =
    CallOnResponse "callback option"
  | CallOnCreateTransport "CreateTransportHandler option"
  | CallOnRequest "callback option"
  | CallWithLabel string
  | CallWithMockedResponse "MockedResponseHandler option"
  | CallWithLogging
  | CallWithLogLevel int
  | CallWithLogger int "logger option"
  | CallWithTransport "Transport option"
  | CallWithKeepAlives
  | CallWithContentType string
  | CallWithScheme string
  | CallWithHost string
  | CallWithPath string
  | CallWithPathf string "'o list"
  | CallWithCombinedPath "string list"
  | CallWithURL string
  | CallWithHeader string string
  | CallWithQueryString string string
  | CallWithCookie 'c
  | CallWithPostData string string
  | CallWithPostDataFromObject 'o
  | CallWithBasicAuth string string
  | CallWithTimeout duration
  | CallWithTLSCert string
  | CallWithTLSKey string
  | CallWithVerb string
  | CallAsGet
  | CallAsPost
  | CallAsPut
  | CallAsPatch
  | CallAsDelete
  | CallWithJSONBody 'o
  | CallWithXMLBody 'o
  | CallWithSerializedBody 'o "'o \<Rightarrow> bytes \<times> error option"
  | CallWithRawBody bytes

fun apply_call ::
  "('r, 'c, 'o) platform \<Rightarrow> ('c, 'o) config_call \<Rightarrow> 'c HTTPRequest \<Rightarrow> 'c HTTPRequest outcome" where
  "apply_call P (CallOnResponse hook) hr = Return (OnResponse hook hr)"
| "apply_call P (CallOnCreateTransport hook) hr = Return (OnCreateTransport hook hr)"
| "apply_call P (CallOnRequest hook) hr = Return (OnRequest hook hr)"
| "apply_call P (CallWithLabel l) hr = Return (WithLabel l hr)"
| "apply_call P (CallWithMockedResponse hook) hr = Return (WithMockedResponse hook hr)"
| "apply_call P CallWithLogging hr = Return (WithLogging hr)"
| "apply_call P (CallWithLogLevel l) hr = Return (WithLogLevel l hr)"
| "apply_call P (CallWithLogger l lg) hr = Return (WithLogger l lg hr)"
| "apply_call P (CallWithTransport t) hr = Return (WithTransport t hr)"
| "apply_call P CallWithKeepAlives hr = Return (WithKeepAlives P hr)"
| "apply_call P (CallWithContentType c) hr = Return (WithContentType c hr)"
| "apply_call P (CallWithScheme s) hr = Return (WithScheme s hr)"
| "apply_call P (CallWithHost h) hr = Return (WithHost h hr)"
| "apply_call P (CallWithPath p) hr = Return (WithPath p hr)"
| "apply_call P (CallWithPathf f args) hr = Return (WithPathf P f args hr)"
| "apply_call P (CallWithCombinedPath cs) hr = Return (WithCombinedPath cs hr)"
| "apply_call P (CallWithURL u) hr = WithURL P u hr"
| "apply_call P (CallWithHeader f v) hr = Return (WithHeader P f v hr)"
| "apply_call P (CallWithQueryString f v) hr = Return (WithQueryString f v hr)"
| "apply_call P (CallWithCookie c) hr = Return (WithCookie c hr)"
| "apply_call P (CallWithPostData f v) hr = Return (WithPostData f v hr)"
| "apply_call P (CallWithPostDataFromObject object) hr = Return (WithPostDataFromObject P object hr)"
| "apply_call P (CallWithBasicAuth u p) hr = Return (WithBasicAuth u p hr)"
| "apply_call P (CallWithTimeout d) hr = Return (WithTimeout d hr)"
| "apply_call P (CallWithTLSCert c) hr = Return (WithTLSCert c hr)"
| "apply_call P (CallWithTLSKey k) hr = Return (WithTLSKey k hr)"
| "apply_call P (CallWithVerb v) hr = Return (WithVerb v hr)"
| "apply_call P CallAsGet hr = Return (AsGet hr)"
| "apply_call P CallAsPost hr = Return (AsPost hr)"
| "apply_call P CallAsPut hr = Return (AsPut hr)"
| "apply_call P CallAsPatch hr = Return (AsPatch hr)"
| "apply_call P CallAsDelete hr = Return (AsDelete hr)"
| "apply_call P (CallWithJSONBody object) hr = Return (WithJSONBody P object hr)"
| "apply_call P (CallWithXMLBody object) hr = Return (WithXMLBody P object hr)"
| "apply_call P (CallWithSerializedBody object serialize) hr =
     Return (WithSerializedBody object serialize hr)"
| "apply_call P (CallWithRawBody b) hr = Return (WithRawBody b hr)"

definition then_call ::
  "('r, 'c, 'o) platform \<Rightarrow> ('c, 'o) config_call \<Rightarrow> 'c HTTPRequest outcome \<Rightarrow>
     'c HTTPRequest outcome" where
  "then_call P c r = (case r of Panic p \<Rightarrow> Panic p | Return hr \<Rightarrow> apply_call P c hr)"

definition configure ::
  "('r, 'c, 'o) platform \<Rightarrow> ('c, 'o) config_call list \<Rightarrow> 'c HTTPRequest \<Rightarrow>
     'c HTTPRequest outcome" where
  "configure P calls hr = fold (then_call P) calls (Return hr)"

text \<open>
  \<open>touches\<close> names the concerns of the request that a call writes: a field of the
  request, or one key of the header, query-string or post-data map (a header under its
  canonical key, as \<open>Header.Set\<close> stores it). \<open>WithURL\<close> replaces the whole query string,
  so it writes every key of it; the cookies are one ordered list. Two calls are
  independent when they write no common concern.
\<close>

datatype concern =
    OfScheme | OfHost | OfPath | OfVerb | OfContentType | OfTimeout | OfTLSCert | OfTLSKey
  | OfBasicAuth | OfBody | OfLabel | OfKeepAlive | OfCookies | OfLogLevel | OfLogger
  | OfTransport | OfCreateTransportHandler | OfResponseHandler | OfRequestHandler
  | OfMockHandler
  | OfHeader string | OfQueryString string | OfPostData string

fun touches :: "('r, 'c, 'o) platform \<Rightarrow> ('c, 'o) config_call \<Rightarrow> concern set" where
  "touches P (CallOnResponse hook) = {OfResponseHandler}"
| "touches P (CallOnCreateTransport hook) = {OfCreateTransportHandler}"
| "touches P (CallOnRequest hook) = {OfRequestHandler}"
| "touches P (CallWithLabel l) = {OfLabel}"
| "touches P (CallWithMockedResponse hook) = {OfMockHandler}"
| "touches P CallWithLogging = {OfLogLevel, OfLogger}"
| "touches P (CallWithLogLevel l) = {OfLogLevel}"
| "touches P (CallWithLogger l lg) = {OfLogLevel, OfLogger}"
| "touches P (CallWithTransport t) = {OfTransport}"
| "touches P CallWithKeepAlives = {OfKeepAlive, OfHeader (CanonicalMIMEHeaderKey P ''Connection'')}"
| "touches P (CallWithContentType c) = {OfContentType}"
| "touches P (CallWithScheme s) = {OfScheme}"
| "touches P (CallWithHost h) = {OfHost}"
| "touches P (CallWithPath p) = {OfPath}"
| "touches P (CallWithPathf f args) = {OfPath}"
| "touches P (CallWithCombinedPath cs) = {OfPath}"
| "touches P (CallWithURL u) = {OfScheme, OfHost, OfPath} \<union> range OfQueryString"
| "touches P (CallWithHeader f v) = {OfHeader (CanonicalMIMEHeaderKey P f)}"
| "touches P (CallWithQueryString f v) = {OfQueryString f}"
| "touches P (CallWithCookie c) = {OfCookies}"
| "touches P (CallWithPostData f v) = {OfPostData f}"
| "touches P (CallWithPostDataFromObject object) =
     OfPostData ` fst ` set (util_DecomposeToPostDataAsJSON P object)"
| "touches P (CallWithBasicAuth u p) = {OfBasicAuth}"
| "touches P (CallWithTimeout d) = {OfTimeout}"
| "touches P (CallWithTLSCert c) = {OfTLSCert}"
| "touches P (CallWithTLSKey k) = {OfTLSKey}"
| "touches P (CallWithVerb v) = {OfVerb}"
| "touches P CallAsGet = {OfVerb}"
| "touches P CallAsPost = {OfVerb}"
| "touches P CallAsPut = {OfVerb}"
| "touches P CallAsPatch = {OfVerb}"
| "touches P CallAsDelete = {OfVerb}"
| "touches P (CallWithJSONBody object) = {OfBody, OfContentType}"
| "touches P (CallWithXMLBody object) = {OfBody, OfContentType}"
| "touches P (CallWithSerializedBody object serialize) = {OfBody}"
| "touches P (CallWithRawBody b) = {OfBody}"

definition independent ::
  "('r, 'c, 'o) platform \<Rightarrow> ('c, 'o) config_call \<Rightarrow> ('c, 'o) config_call \<Rightarrow> bool" where
  "independent P c d = (touches P c \<inter> touches P d = {})"

text \<open>
  The result of \<open>WithURL\<close> apart from the request it is applied to: the panic, or the
  scheme, host, path and query string it stores.
\<close>

fun WithURL_query :: "string list \<Rightarrow> Values \<Rightarrow> Values outcome" where
  "WithURL_query [] q = Return q"
| "WithURL_query (param # params) q =
     (if param \<noteq> [] then
        (case strings_Split param (CHR ''='') of
           k # v # rest \<Rightarrow> WithURL_query params (Values_Set k v q)
         | _ \<Rightarrow> Panic IndexOutOfRange)
      else WithURL_query params q)"

subsection \<open>A platform to run the model on\<close>

text \<open>
  A small instance of the platform, used to run the definitions on concrete requests.
  Requests are plain records, cookies are strings, objects are booleans with the JSON
  codec of \<open>true\<close> and \<open>false\<close>. Escaping and canonicalisation leave their argument
  alone (as Go's do on unreserved bytes and on canonical keys), \<open>url.Parse\<close> is the
  table of the parses of two URLs, certificates never load and every round trip fails
  at the dial; \<open>Sprintf\<close> returns its format (as Go's does on a format without verbs
  and no operands) and objects decompose into no post data.
\<close>

record plain_request =
  pr_Verb :: string
  pr_URL :: URL
  pr_Body :: bytes
  pr_BasicAuth :: "(string \<times> string) option"
  pr_Cookies :: "string list"
  pr_Header :: Values

definition bool_Marshal :: "bool \<Rightarrow> bytes \<times> error option" where
  "bool_Marshal b = (if b then (''true'', None) else (''false'', None))"

definition bool_Decode :: "bytes \<Rightarrow> bool \<Rightarrow> bool \<times> error option" where
  "bool_Decode bs dest =
     (if bs = ''true'' then (True, None)
      else if bs = ''false'' then (False, None)
      else (dest, Some (External ''invalid character'')))"

definition codec_platform ::
  "('o \<Rightarrow> bytes \<times> error option) \<Rightarrow> (bytes \<Rightarrow> 'o \<Rightarrow> 'o \<times> error option) \<Rightarrow>
     (plain_request, string, 'o) platform" where
  "codec_platform marshal decode =
     \<lparr>url_QueryEscape = (\<lambda>s. s),
      CanonicalMIMEHeaderKey = (\<lambda>s. s),
      url_Parse = map_of
        [(''http://example.com/p?a&b=2'',
            \<lparr>url_Scheme = ''http'', url_Host = ''example.com'', url_Path = ''/p'',
             url_RawQuery = ''a&b=2''\<rparr>),
         (''http://example.com/p?a=1&b=2'',
            \<lparr>url_Scheme = ''http'', url_Host = ''example.com'', url_Path = ''/p'',
             url_RawQuery = ''a=1&b=2''\<rparr>)],
      http_NewRequest = (\<lambda>verb u body.
        Inr \<lparr>pr_Verb = verb, pr_URL = u, pr_Body = body, pr_BasicAuth = None,
             pr_Cookies = [], pr_Header = Map.empty\<rparr>),
      req_URL = pr_URL,
      req_SetBasicAuth = (\<lambda>u p r. r\<lparr>pr_BasicAuth := Some (u, p)\<rparr>),
      req_AddCookie = (\<lambda>c r. r\<lparr>pr_Cookies := pr_Cookies r @ [c]\<rparr>),
      req_Header_Set = (\<lambda>k v r. r\<lparr>pr_Header := (pr_Header r)(k \<mapsto> [v])\<rparr>),
      tls_LoadX509KeyPair = (\<lambda>c k. Inl (External ''open: no such file or directory'')),
      client_Do = (\<lambda>c r. (None, Some (External ''dial tcp: connection refused''))),
      json_Marshal = marshal,
      json_Decode = decode,
      xml_Marshal = marshal,
      xml_Decode = decode,
      fmt_Sprintf = (\<lambda>format args. format),
      util_DecomposeToPostDataAsJSON = (\<lambda>object. [])\<rparr>"

definition plain_platform :: "(plain_request, string, bool) platform" where
  "plain_platform = codec_platform bool_Marshal bool_Decode"

text \<open>
  A second codec, behaving as \<open>encoding/json\<close> does on a number held in an
  \<open>interface{}\<close>: the integer 1 and the float 1 are both written as \<open>1\<close>, and \<open>1\<close> is
  decoded into an \<open>interface{}\<close> as a \<open>float64\<close>.
\<close>

datatype any_number = Int_1 | Float64_1

definition number_Marshal :: "any_number \<Rightarrow> bytes \<times> error option" where
  "number_Marshal n = (''1'', None)"

definition number_Decode :: "bytes \<Rightarrow> any_number \<Rightarrow> any_number \<times> error option" where
  "number_Decode bs dest =
     (if bs = ''1'' then (Float64_1, None) else (dest, Some (External ''invalid character'')))"

definition number_platform :: "(plain_request, string, any_number) platform" where
  "number_platform = codec_platform number_Marshal number_Decode"

subsection \<open>Iteration orders and defaults\<close>

text \<open>
  \<open>range_order ks v\<close>: the list \<open>ks\<close> is an order in which a \<open>range\<close> over the map \<open>v\<close>
  may visit its keys, each key once. \<open>or_empty\<close> reads a possibly nil map.
\<close>

definition range_order :: "string list \<Rightarrow> Values option \<Rightarrow> bool" where
  "range_order ks v = (case v of None \<Rightarrow> ks = [] | Some m \<Rightarrow> distinct ks \<and> set ks = dom m)"

definition or_empty :: "Values option \<Rightarrow> Values" where
  "or_empty v = (case v of None \<Rightarrow> Map.empty | Some m \<Rightarrow> m)"

definition Values_Add_all :: "(string \<times> string) list \<Rightarrow> Values \<Rightarrow> Values" where
  "Values_Add_all items m = fold (\<lambda>item. Values_Add (fst item) (snd item)) items m"

text \<open>
  Whether the mock handler of a request answers for the assembled request, and the event
  of calling it: in \<open>FetchRawResponse\<close> a handler that is absent or reports no match
  lets the execution go on to the round trip.
\<close>

definition mock_answers :: "('r, 'c, 'o) platform \<Rightarrow> 'c HTTPRequest \<Rightarrow> 'r \<Rightarrow> bool" where
  "mock_answers P hr req =
     (case mockHandler hr of
        None \<Rightarrow> False
      | Some handler \<Rightarrow> fst (handler (Verb hr) (req_URL P req)))"

definition mock_call_events ::
  "('r, 'c, 'o) platform \<Rightarrow> 'c HTTPRequest \<Rightarrow> 'r \<Rightarrow> 'r event list" where
  "mock_call_events P hr req =
     (case mockHandler hr of
        None \<Rightarrow> []
      | Some handler \<Rightarrow> [MockCalled (Verb hr) (req_URL P req)])"

subsection \<open>Example requests\<close>

text \<open>Concrete requests and responses on which the theorems below are run.\<close>

definition conflicting_request :: "string HTTPRequest" where
  "conflicting_request = WithPostData ''k'' ''v'' (WithRawBody ''x'' NewHTTPRequest)"

text \<open>A transport of the caller's whose dial function is the caller's own.\<close>

definition failing_dial_transport :: Transport where
  "failing_dial_transport =
     \<lparr>DisableCompression = False, DisableKeepAlives = False, Dial = CallerDial 0,
      TLSClientConfig = None\<rparr>"

definition not_found_meta :: HTTPResponseMeta where
  "not_found_meta =
     \<lparr>meta_StatusCode = 404, meta_ContentLength = 0, meta_ContentEncoding = [],
      meta_ContentType = [], meta_Headers = Map.empty\<rparr>"

text \<open>A request with that transport and a mock handler that always answers 404.\<close>

definition mocked_request :: "string HTTPRequest" where
  "mocked_request =
     WithTransport (Some failing_dial_transport)
       (WithMockedResponse (Some (\<lambda>verb u. (True, Some not_found_meta, ''false'', None)))
          NewHTTPRequest)"

definition plain_get :: plain_request where
  "plain_get =
     \<lparr>pr_Verb = ''GET'',
      pr_URL = \<lparr>url_Scheme = ''http'', url_Host = [], url_Path = [], url_RawQuery = []\<rparr>,
      pr_Body = [], pr_BasicAuth = None, pr_Cookies = [], pr_Header = Map.empty\<rparr>"

definition not_found_response :: Response where
  "not_found_response =
     \<lparr>res_StatusCode = 404, res_ContentLength = 5, res_Header = Map.empty,
      res_Body = Some (ioutil_NopCloser ''false'')\<rparr>"

text \<open>
  A platform whose round trip succeeds with a chunked response: the declared content
  length is \<open>-1\<close>, the body holds four bytes.
\<close>

definition chunked_platform :: "(plain_request, string, bool) platform" where
  "chunked_platform =
     plain_platform\<lparr>client_Do := (\<lambda>c r.
        (Some \<lparr>res_StatusCode = 200, res_ContentLength = - 1, res_Header = Map.empty,
               res_Body = Some \<lparr>rc_data = ''true'', rc_read_err = None, rc_close_err = None\<rparr>\<rparr>,
         None))\<rparr>"

definition chunked_response :: Response where
  "chunked_response =
     \<lparr>res_StatusCode = 200, res_ContentLength = - 1, res_Header = Map.empty,
      res_Body = Some \<lparr>rc_data = ''true'', rc_read_err = None, rc_close_err = None\<rparr>\<rparr>"

definition default_client :: Client where
  "default_client = \<lparr>client_Transport = None, client_Timeout = 0\<rparr>"

text \<open>A request whose mock handler echoes the JSON serialization of \<open>True\<close> with status 200.\<close>

definition ok_meta :: HTTPResponseMeta where
  "ok_meta =
     \<lparr>meta_StatusCode = 200, meta_ContentLength = 0, meta_ContentEncoding = [],
      meta_ContentType = [], meta_Headers = Map.empty\<rparr>"

definition echo_request :: "string HTTPRequest" where
  "echo_request =
     WithMockedResponse
       (Some (\<lambda>verb u. (True, Some ok_meta, fst (serializeJSON plain_platform True), None)))
       NewHTTPRequest"

text \<open>A request with two query parameters.\<close>

definition two_param_request :: "string HTTPRequest" where
  "two_param_request = WithQueryString ''b'' ''2'' (WithQueryString ''a'' ''1'' NewHTTPRequest)"

text \<open>
  A request that asks for keep-alive and a timeout and for nothing else, and the request
  assembled from it.
\<close>

definition keepalive_timeout_request :: "string HTTPRequest" where
  "keepalive_timeout_request = WithTimeout 5 (WithKeepAlives plain_platform NewHTTPRequest)"

definition keepalive_get :: plain_request where
  "keepalive_get = plain_get\<lparr>pr_Header := [''Connection'' \<mapsto> [''keep-alive'']]\<rparr>"

text \<open>A request that carries a transport of the caller's.\<close>

definition provided_transport_request :: "string HTTPRequest" where
  "provided_transport_request = WithTransport (Some failing_dial_transport) NewHTTPRequest"

text \<open>
  A request whose mock handler reports no match, with a transport of the caller's; a
  request whose mock handler forces an error and returns no meta; a request whose mock
  handler echoes the JSON serialization of the integer 1.
\<close>

definition unmatched_mock_request :: "string HTTPRequest" where
  "unmatched_mock_request =
     WithTransport (Some failing_dial_transport)
       (WithMockedResponse (Some (\<lambda>verb u. (False, None, [], None))) NewHTTPRequest)"

definition nil_meta_request :: "string HTTPRequest" where
  "nil_meta_request =
     WithMockedResponse (Some (\<lambda>verb u. (True, None, [], Some (External ''forced failure''))))
       NewHTTPRequest"

definition number_echo_request :: "string HTTPRequest" where
  "number_echo_request =
     WithMockedResponse
       (Some (\<lambda>verb u. (True, Some ok_meta, fst (serializeJSON number_platform Int_1), None)))
       NewHTTPRequest"

text \<open>A list of pairwise independent configuration calls.\<close>

definition example_calls :: "(string, bool) config_call list" where
  "example_calls =
     [CallWithHost ''example.com'', CallWithPath ''/p'', CallAsPost,
      CallWithHeader ''Accept'' ''text/plain'', CallWithHeader ''X-Id'' ''7'',
      CallWithQueryString ''a'' ''1'', CallWithQueryString ''b'' ''2'', CallWithTimeout 5,
      CallWithCookie ''session=1'', CallWithTransport (Some failing_dial_transport),
      CallOnRequest (Some (Callback 1)), CallWithLogging, CallWithJSONBody True]"

section \<open>Properties\<close>

subsection \<open>Auxiliary facts\<close>

lemma Wrap_exception_New [simp]: "exception_Wrap (Some (exception_New s)) = Some (exception_New s)"
  by (simp add: exception_Wrap_def exception_New_def)

lemma range_keys_empty [simp]: "range_keys Map.empty = []"
  by (simp add: range_keys_def)

lemma Values_len_None [simp]: "Values_len None = 0"
  by (simp add: Values_len_def)

lemma Values_Encode_None [simp]: "Values_Encode esc None = []"
  by (simp add: Values_Encode_def Values_Encode_range_def)

lemma CreateHTTPRequest_conflict:
  "0 < length (Body hr) \<Longrightarrow> 0 < Values_len (PostData hr) \<Longrightarrow>
   CreateHTTPRequest P hr = Inl (exception_New ''Cant set both a body and have post data.'')"
  by (simp add: CreateHTTPRequest_def Let_def)

lemma logRequest_no_transport_event: "e \<in> set (logRequest P hr) \<Longrightarrow> \<not> transport_event e"
  by (auto simp: logRequest_def hr_logf_def Let_def split: option.splits if_splits)

lemma conflicting_request_fields:
  "Body conflicting_request = ''x''"
  "PostData conflicting_request = Some [''k'' \<mapsto> [''v'']]"
  by (simp_all add: conflicting_request_def WithPostData_def WithRawBody_def NewHTTPRequest_def
      Values_Add_def Values_lookup_def)

lemma mocked_request_fields:
  "mockHandler mocked_request = Some (\<lambda>verb u. (True, Some not_found_meta, ''false'', None))"
  "Verb mocked_request = ''GET''"
  "transport mocked_request = Some failing_dial_transport"
  "outgoingRequestHandler mocked_request = None"
  "incomingResponseHandler mocked_request = None"
  "Logger mocked_request = None"
  by (simp_all add: mocked_request_def WithTransport_def WithMockedResponse_def NewHTTPRequest_def)

lemma CreateHTTPRequest_mocked_request:
  "CreateHTTPRequest plain_platform mocked_request = Inr plain_get"
  by (simp add: CreateHTTPRequest_def CreateURL_def RequestBody_def Headers_def Let_def
      mocked_request_def WithTransport_def WithMockedResponse_def NewHTTPRequest_def
      plain_platform_def codec_platform_def plain_get_def isEmpty_def)

lemma logRequest_mocked_request: "logRequest plain_platform mocked_request = []"
  by (simp add: logRequest_def hr_logf_def mocked_request_fields)

lemma NewHTTPResponseMeta_None:
  "NewHTTPResponseMeta None =
     \<lparr>meta_StatusCode = 0, meta_ContentLength = 0, meta_ContentEncoding = [],
      meta_ContentType = [], meta_Headers = Map.empty\<rparr>"
  by (simp add: NewHTTPResponseMeta_def)

lemma meta_ContentLength_declared:
  "meta_ContentLength (NewHTTPResponseMeta (Some r)) = res_ContentLength r"
  by (simp add: NewHTTPResponseMeta_def Let_def split: option.splits)

lemma meta_StatusCode_response:
  "meta_StatusCode (NewHTTPResponseMeta (Some r)) = res_StatusCode r"
  by (simp add: NewHTTPResponseMeta_def Let_def split: option.splits)

lemma CreateHTTPRequest_NewHTTPRequest:
  "CreateHTTPRequest plain_platform NewHTTPRequest = Inr plain_get"
  "CreateHTTPRequest chunked_platform NewHTTPRequest = Inr plain_get"
  by (simp_all add: CreateHTTPRequest_def CreateURL_def RequestBody_def Headers_def Let_def
      NewHTTPRequest_def chunked_platform_def plain_platform_def codec_platform_def plain_get_def isEmpty_def)

lemma Fetch_plain_NewHTTPRequest:
  "FetchRawResponse plain_platform (NewHTTPRequest :: string HTTPRequest) =
     ([ClientDo default_client plain_get],
      Return (None, Some (Wrapped (External ''dial tcp: connection refused''))))"
  by (simp add: FetchRawResponse_def CreateHTTPRequest_NewHTTPRequest)
     (simp add: NewHTTPRequest_def logRequest_def hr_logf_def client_round_trip_def
        requiresCustomTransport_def isEmpty_def client_Do_step_def plain_platform_def codec_platform_def
        exception_Wrap_def default_client_def)

lemma Fetch_chunked_NewHTTPRequest:
  "FetchRawResponse chunked_platform (NewHTTPRequest :: string HTTPRequest) =
     ([ClientDo default_client plain_get], Return (Some chunked_response, None))"
  by (simp add: FetchRawResponse_def CreateHTTPRequest_NewHTTPRequest)
     (simp add: NewHTTPRequest_def logRequest_def hr_logf_def client_round_trip_def
        requiresCustomTransport_def isEmpty_def client_Do_step_def plain_platform_def codec_platform_def
        chunked_platform_def exception_Wrap_def default_client_def chunked_response_def)

lemma Fetch_mocked_request:
  "FetchRawResponse plain_platform mocked_request =
     ([MockCalled ''GET'' (pr_URL plain_get)], Return (Some not_found_response, None))"
  by (simp add: FetchRawResponse_def CreateHTTPRequest_mocked_request logRequest_mocked_request
      mocked_request_fields)
     (simp add: plain_platform_def codec_platform_def not_found_response_def not_found_meta_def exception_Wrap_def)

lemma deserializeWithError_read:
  assumes "FetchRawResponse P hr = (t, Return (Some r, None))"
    and "res_Body r = Some rc"
    and "ioutil_ReadAll rc = (body, None)"
  shows "deserializeWithError P hr (Some okHandler) (Some errorHandler) w =
           (t @ logResponse hr ((NewHTTPResponseMeta (Some r))\<lparr>meta_ContentLength := int (length body)\<rparr>) body
              @ [BodyClosed],
            Return (Some ((NewHTTPResponseMeta (Some r))\<lparr>meta_ContentLength := int (length body)\<rparr>),
                    exception_Wrap (fst ((if res_StatusCode r = 200 then okHandler else errorHandler) body w))),
            snd ((if res_StatusCode r = 200 then okHandler else errorHandler) body w))"
  using assms by (simp add: deserializeWithError_def Let_def http_StatusOK_def split: prod.splits)

lemma deserialize_read:
  assumes "FetchRawResponse P hr = (t, Return (Some r, None))"
    and "res_Body r = Some rc"
    and "ioutil_ReadAll rc = (body, None)"
  shows "deserialize P hr (Some handler) w =
           (t @ logResponse hr ((NewHTTPResponseMeta (Some r))\<lparr>meta_ContentLength := int (length body)\<rparr>) body
              @ [BodyClosed],
            Return (Some ((NewHTTPResponseMeta (Some r))\<lparr>meta_ContentLength := int (length body)\<rparr>),
                    exception_Wrap (fst (handler body w))),
            snd (handler body w))"
  using assms by (simp add: deserialize_def Let_def split: prod.splits)

lemma newJSONDeserializer_store:
  "snd (newJSONDeserializer P object body w) = w(object := fst (json_Decode P body (w object)))"
  by (simp add: newJSONDeserializer_def deserializeJSON_def split: prod.splits)

lemma newJSONDeserializer_error:
  "fst (newJSONDeserializer P object body w) = exception_Wrap (snd (json_Decode P body (w object)))"
  by (simp add: newJSONDeserializer_def deserializeJSON_def split: prod.splits)

lemma echo_request_fields:
  "mockHandler echo_request = Some (\<lambda>verb u. (True, Some ok_meta, fst (serializeJSON plain_platform True), None))"
  "Verb echo_request = ''GET''"
  by (simp_all add: echo_request_def WithMockedResponse_def NewHTTPRequest_def)

lemma CreateHTTPRequest_echo_request:
  "CreateHTTPRequest plain_platform echo_request = Inr plain_get"
  by (simp add: CreateHTTPRequest_def CreateURL_def RequestBody_def Headers_def Let_def
      echo_request_def WithMockedResponse_def NewHTTPRequest_def
      plain_platform_def codec_platform_def plain_get_def isEmpty_def)

lemma sort_range_order:
  assumes "distinct ks" and "set ks = dom m"
  shows "sort ks = range_keys m"
proof -
  have "sorted_list_of_set (set ks) = sort (remdups ks)"
    by (rule sorted_list_of_set_sort_remdups)
  with assms show ?thesis
    by (simp add: range_keys_def distinct_remdups_id)
qed

lemma sort_range_keys: "finite (dom m) \<Longrightarrow> sort (range_keys m) = range_keys m"
  by (simp add: range_keys_def sorted_sort_id)

lemma Values_Encode_range_order:
  assumes "range_order ks v"
  shows "Values_Encode_range esc ks v = Values_Encode esc v"
proof (cases v)
  case None
  then show ?thesis
    by (simp add: Values_Encode_def Values_Encode_range_def Values_len_def)
next
  case (Some m)
  with assms have d: "distinct ks" and s: "set ks = dom m"
    by (simp_all add: range_order_def)
  from s have "finite (dom m)"
    by (metis List.finite_set)
  then have "sort (range_keys m) = range_keys m"
    by (rule sort_range_keys)
  with sort_range_order [OF d s] Some show ?thesis
    by (simp add: Values_Encode_def Values_Encode_range_def)
qed

lemma two_param_request_QueryString:
  "QueryString two_param_request = Some [''a'' \<mapsto> [''1''], ''b'' \<mapsto> [''2'']]"
  by (simp add: two_param_request_def WithQueryString_def NewHTTPRequest_def Values_Add_def
      Values_lookup_def)

lemma strings_Split_nonempty: "strings_Split s c \<noteq> []"
  by (induction s) (auto split: list.splits)

lemma strings_Split_no_sep: "c \<notin> set s \<Longrightarrow> strings_Split s c = [s]"
  by (induction s) auto

lemma WithURL_params_bare_key:
  fixes hr :: "'c HTTPRequest"
  assumes "param \<in> set params" and "param \<noteq> []" and "CHR ''='' \<notin> set param"
    and "QueryString hr \<noteq> None"
  shows "WithURL_params params hr = Panic IndexOutOfRange"
  using assms
proof (induction params arbitrary: hr)
  case Nil
  then show ?case by simp
next
  case (Cons p ps)
  show ?case
  proof (cases "p = param")
    case True
    with Cons.prems show ?thesis
      by (simp add: strings_Split_no_sep)
  next
    case False
    with Cons.prems have mem: "param \<in> set ps" by simp
    have ih: "WithURL_params ps h = Panic IndexOutOfRange" if "QueryString h \<noteq> None"
      for h :: "'c HTTPRequest"
      by (rule Cons.IH [OF mem Cons.prems(2,3) that])
    from Cons.prems(4) obtain q where q: "QueryString hr = Some q" by auto
    show ?thesis
      using ih Cons.prems(4) q by (auto split: list.splits)
  qed
qed

lemma WithHeader_eq:
  "WithHeader P f v hr =
     hr\<lparr>Header := Some (Header_Set (CanonicalMIMEHeaderKey P) f v (or_empty (Header hr)))\<rparr>"
  by (cases "Header hr") (simp_all add: WithHeader_def or_empty_def)

lemma WithQueryString_eq:
  "WithQueryString f v hr = hr\<lparr>QueryString := Some (Values_Add f v (or_empty (QueryString hr)))\<rparr>"
  by (cases "QueryString hr") (simp_all add: WithQueryString_def or_empty_def)

lemma WithPostData_eq:
  "WithPostData f v hr = hr\<lparr>PostData := Some (Values_Add f v (or_empty (PostData hr)))\<rparr>"
  by (cases "PostData hr") (simp_all add: WithPostData_def or_empty_def)

lemma WithKeepAlives_eq:
  "WithKeepAlives P hr =
     hr\<lparr>KeepAlive := True,
        Header := Some (Header_Set (CanonicalMIMEHeaderKey P) ''Connection'' ''keep-alive''
                          (or_empty (Header hr)))\<rparr>"
  by (simp add: WithKeepAlives_def WithHeader_eq)

lemma Header_Set_commute:
  "canon f \<noteq> canon g \<Longrightarrow>
   Header_Set canon f v (Header_Set canon g u h) = Header_Set canon g u (Header_Set canon f v h)"
  by (simp add: Header_Set_def fun_upd_twist)

lemma Values_Add_commute:
  "f \<noteq> g \<Longrightarrow> Values_Add f v (Values_Add g u m) = Values_Add g u (Values_Add f v m)"
  by (simp add: Values_Add_def Values_lookup_def fun_upd_twist)

lemma or_empty_Some [simp]: "or_empty (Some m) = m"
  by (simp add: or_empty_def)

lemma Values_Add_all_Nil [simp]: "Values_Add_all [] m = m"
  by (simp add: Values_Add_all_def)

lemma Values_Add_all_Cons [simp]:
  "Values_Add_all (x # xs) m = Values_Add_all xs (Values_Add (fst x) (snd x) m)"
  by (simp add: Values_Add_all_def)

lemma Values_Add_past_all:
  "f \<notin> fst ` set items \<Longrightarrow>
   Values_Add f u (Values_Add_all items m) = Values_Add_all items (Values_Add f u m)"
proof (induction items arbitrary: m)
  case Nil
  then show ?case by simp
next
  case (Cons x xs)
  then have "f \<noteq> fst x" and "f \<notin> fst ` set xs" by auto
  then show ?case
    by (simp add: Cons.IH Values_Add_commute)
qed

lemma Values_Add_all_commute:
  "fst ` set xs \<inter> fst ` set ys = {} \<Longrightarrow>
   Values_Add_all xs (Values_Add_all ys m) = Values_Add_all ys (Values_Add_all xs m)"
proof (induction xs arbitrary: m)
  case Nil
  then show ?case by simp
next
  case (Cons x xs)
  then have a: "fst x \<notin> fst ` set ys" and b: "fst ` set xs \<inter> fst ` set ys = {}" by auto
  show ?case
    by (simp add: Values_Add_past_all [OF a] Cons.IH [OF b])
qed

lemma fold_WithPostData:
  "fold (\<lambda>item h. WithPostData (fst item) (snd item) h) items hr =
     (if items = [] then hr
      else hr\<lparr>PostData := Some (Values_Add_all items (or_empty (PostData hr)))\<rparr>)"
proof (induction items arbitrary: hr)
  case Nil
  then show ?case by simp
next
  case (Cons x xs)
  have "fold (\<lambda>item h. WithPostData (fst item) (snd item) h) (x # xs) hr =
          fold (\<lambda>item h. WithPostData (fst item) (snd item) h) xs
            (WithPostData (fst x) (snd x) hr)"
    by simp
  also have "\<dots> =
      (if xs = [] then WithPostData (fst x) (snd x) hr
       else (WithPostData (fst x) (snd x) hr)
              \<lparr>PostData := Some (Values_Add_all xs
                  (or_empty (PostData (WithPostData (fst x) (snd x) hr))))\<rparr>)"
    by (rule Cons.IH)
  also have "\<dots> = hr\<lparr>PostData := Some (Values_Add_all (x # xs) (or_empty (PostData hr)))\<rparr>"
    by (simp add: WithPostData_eq)
  finally show ?case by simp
qed

lemma WithPostDataFromObject_eq:
  "WithPostDataFromObject P object hr =
     (if util_DecomposeToPostDataAsJSON P object = [] then hr
      else hr\<lparr>PostData := Some (Values_Add_all (util_DecomposeToPostDataAsJSON P object)
                                   (or_empty (PostData hr)))\<rparr>)"
  by (simp add: WithPostDataFromObject_def fold_WithPostData)

lemma WithURL_params_query:
  "QueryString hr = Some q \<Longrightarrow>
   WithURL_params params hr =
     (case WithURL_query params q of
        Panic p \<Rightarrow> Panic p
      | Return q' \<Rightarrow> Return (hr\<lparr>QueryString := Some q'\<rparr>))"
proof (induction params arbitrary: hr q)
  case Nil
  then show ?case by simp
next
  case (Cons p ps)
  then show ?case
    by (auto split: list.splits outcome.splits)
qed

lemma WithURL_eq:
  "WithURL P u hr =
     (case url_Parse P u of
        None \<Rightarrow> Panic NilDereference
      | Some w \<Rightarrow>
          (case WithURL_query (strings_Split (url_RawQuery w) (CHR ''&'')) Map.empty of
             Panic p \<Rightarrow> Panic p
           | Return q \<Rightarrow>
               Return (hr\<lparr>Scheme := url_Scheme w, Host := url_Host w, Path := url_Path w,
                          QueryString := Some q\<rparr>)))"
  by (simp add: WithURL_def Let_def WithURL_params_query split: option.splits outcome.splits)

lemma disjoint_post_data_key [simp]:
  "(OfPostData ` A \<inter> {OfPostData f} = {}) = (f \<notin> A)"
  "({OfPostData f} \<inter> OfPostData ` A = {}) = (f \<notin> A)"
  by auto

lemma disjoint_post_data_keys [simp]:
  "(OfPostData ` A \<inter> OfPostData ` B = {}) = (A \<inter> B = {})"
  by auto

lemma post_data_other [simp]:
  "OfScheme \<notin> OfPostData ` A" "OfHost \<notin> OfPostData ` A" "OfPath \<notin> OfPostData ` A"
  "OfVerb \<notin> OfPostData ` A" "OfContentType \<notin> OfPostData ` A" "OfTimeout \<notin> OfPostData ` A"
  "OfTLSCert \<notin> OfPostData ` A" "OfTLSKey \<notin> OfPostData ` A" "OfBasicAuth \<notin> OfPostData ` A"
  "OfBody \<notin> OfPostData ` A" "OfLabel \<notin> OfPostData ` A" "OfKeepAlive \<notin> OfPostData ` A"
  "OfCookies \<notin> OfPostData ` A" "OfLogLevel \<notin> OfPostData ` A" "OfLogger \<notin> OfPostData ` A"
  "OfTransport \<notin> OfPostData ` A" "OfCreateTransportHandler \<notin> OfPostData ` A"
  "OfResponseHandler \<notin> OfPostData ` A" "OfRequestHandler \<notin> OfPostData ` A"
  "OfMockHandler \<notin> OfPostData ` A" "OfHeader k \<notin> OfPostData ` A"
  "OfQueryString k \<notin> OfPostData ` A"
  by auto

lemmas setter_eqs =
  OnResponse_def OnCreateTransport_def OnRequest_def WithLabel_def WithMockedResponse_def
  WithLogging_def WithLogLevel_def WithLogger_def WithTransport_def WithKeepAlives_eq
  WithContentType_def WithScheme_def WithHost_def WithPath_def WithPathf_def
  WithCombinedPath_def WithURL_eq WithHeader_eq WithQueryString_eq WithCookie_def
  WithPostData_eq WithPostDataFromObject_eq WithBasicAuth_def WithTimeout_def WithTLSCert_def
  WithTLSKey_def WithVerb_def AsGet_def AsPost_def AsPut_def AsPatch_def AsDelete_def
  WithJSONBody_def WithXMLBody_def WithSerializedBody_def WithRawBody_def

lemma post_data_mem [simp]: "(OfPostData f \<in> OfPostData ` A) = (f \<in> A)"
  by auto

lemma from_objects_record:
  "fst ` set xs \<inter> fst ` set ys = {} \<Longrightarrow>
   hr\<lparr>PostData := Some (Values_Add_all xs (Values_Add_all ys m))\<rparr> =
   hr\<lparr>PostData := Some (Values_Add_all ys (Values_Add_all xs m))\<rparr>"
  using Values_Add_all_commute [of xs ys m] by simp

lemma apply_call_commute:
  assumes "independent P c d"
  shows "then_call P c (apply_call P d hr) = then_call P d (apply_call P c hr)"
  using assms
  apply (cases c; cases d)
  apply (simp_all add: independent_def then_call_def setter_eqs Header_Set_commute
        Values_Add_commute Values_Add_past_all
        split: option.splits outcome.splits)
  apply (blast intro: from_objects_record)
  done

lemma configure_permuted:
  fixes hr :: "'c HTTPRequest"
  assumes "mset calls = mset calls'"
    and "\<forall>c \<in> set calls. \<forall>d \<in> set calls. c \<noteq> d \<longrightarrow> independent P c d"
  shows "configure P calls hr = configure P calls' hr"
proof -
  have comm: "then_call P c (then_call P d r) = then_call P d (then_call P c r)"
    if "c \<in> set calls" and "d \<in> set calls" for c d and r :: "'c HTTPRequest outcome"
  proof (cases "c = d")
    case True
    then show ?thesis by simp
  next
    case False
    with assms(2) that have i: "independent P c d" by blast
    show ?thesis
    proof (cases r)
      case (Panic p)
      then show ?thesis by (simp add: then_call_def)
    next
      case (Return h)
      with apply_call_commute [OF i, of h] show ?thesis
        by (simp add: then_call_def)
    qed
  qed
  show ?thesis
    unfolding configure_def
    by (rule fold_permuted_eq [where P = "\<lambda>h. True", OF assms(1)]) (simp_all add: comm)
qed

text \<open>
  The transport that \<open>createHTTPTransport\<close> builds when no TLS material is configured:
  connection reuse is disabled unless keep-alive is requested, the dial function is the
  logging dialer with the request's timeout and, under keep-alive, a keep-alive period of
  30 seconds; a registered creation hook then receives it.
\<close>

lemma createHTTPTransport_without_TLS:
  assumes "isEmpty (TLSCertPath hr) \<or> isEmpty (TLSKeyPath hr)"
  shows "snd (createHTTPTransport P hr) =
           Inr ((case createTransportHandler hr of None \<Rightarrow> (\<lambda>tr. tr) | Some hook \<Rightarrow> hook (CreateURL P hr))
                  \<lparr>DisableCompression = False, DisableKeepAlives = (\<not> KeepAlive hr),
                   Dial = LoggedDial \<lparr>dialer_Timeout = Timeout hr,
                                      dialer_KeepAlive = (if KeepAlive hr then 30 * time_Second else 0)\<rparr>,
                   TLSClientConfig = None\<rparr>)"
  using assms
  by (auto simp add: createHTTPTransport_def createHTTPTransport_hook_def Let_def
      split: option.splits)

lemma client_Do_step_trace:
  "client_Do_step P hr req t client =
     (t @ [ClientDo (client\<lparr>client_Timeout := (if Timeout hr \<noteq> 0 then Timeout hr else client_Timeout client)\<rparr>) req],
      Return (fst (client_Do P (client\<lparr>client_Timeout := (if Timeout hr \<noteq> 0 then Timeout hr else client_Timeout client)\<rparr>) req),
              exception_Wrap (snd (client_Do P (client\<lparr>client_Timeout := (if Timeout hr \<noteq> 0 then Timeout hr else client_Timeout client)\<rparr>) req))))"
  by (simp add: client_Do_step_def Let_def split: prod.splits)

lemma CreateHTTPRequest_provided_transport_request:
  "CreateHTTPRequest plain_platform provided_transport_request = Inr plain_get"
  by (simp add: CreateHTTPRequest_def CreateURL_def RequestBody_def Headers_def Let_def
      provided_transport_request_def WithTransport_def NewHTTPRequest_def
      plain_platform_def codec_platform_def plain_get_def isEmpty_def)

lemma provided_transport_request_fields:
  "mockHandler provided_transport_request = None"
  "transport provided_transport_request = Some failing_dial_transport"
  "Timeout provided_transport_request = 0"
  "Logger provided_transport_request = None"
  "outgoingRequestHandler provided_transport_request = None"
  by (simp_all add: provided_transport_request_def WithTransport_def NewHTTPRequest_def)

lemma range_keys_singleton [simp]: "range_keys [k \<mapsto> v] = [k]"
  by (simp add: range_keys_def)

lemma keepalive_timeout_request_fields:
  "KeepAlive keepalive_timeout_request"
  "Timeout keepalive_timeout_request = 5"
  "transport keepalive_timeout_request = None"
  "createTransportHandler keepalive_timeout_request = None"
  "TLSCertPath keepalive_timeout_request = []"
  "TLSKeyPath keepalive_timeout_request = []"
  "mockHandler keepalive_timeout_request = None"
  "Logger keepalive_timeout_request = None"
  "outgoingRequestHandler keepalive_timeout_request = None"
  "Header keepalive_timeout_request = Some [''Connection'' \<mapsto> [''keep-alive'']]"
  by (simp_all add: keepalive_timeout_request_def WithTimeout_def WithKeepAlives_def WithHeader_def
      NewHTTPRequest_def Header_Set_def plain_platform_def codec_platform_def)

lemma CreateHTTPRequest_keepalive_timeout_request:
  "CreateHTTPRequest plain_platform keepalive_timeout_request = Inr keepalive_get"
  by (simp add: CreateHTTPRequest_def CreateURL_def RequestBody_def Headers_def Let_def
      keepalive_timeout_request_def WithTimeout_def WithKeepAlives_def WithHeader_def
      NewHTTPRequest_def Header_Set_def Values_lookup_def
      plain_platform_def codec_platform_def plain_get_def keepalive_get_def isEmpty_def)

lemma CreateURL_range_two_param_request:
  "CreateURL_range plain_platform [''b'', ''a''] two_param_request =
     \<lparr>url_Scheme = ''http'', url_Host = [], url_Path = [], url_RawQuery = ''a=1&b=2''\<rparr>"
  by (simp add: CreateURL_range_def two_param_request_QueryString Values_Encode_range_def
      Values_len_def Encode_key_def Values_lookup_def plain_platform_def codec_platform_def)
     (simp add: two_param_request_def WithQueryString_def NewHTTPRequest_def)

lemma WithURL_well_formed_example:
  "WithURL plain_platform ''http://example.com/p?a=1&b=2'' (NewHTTPRequest :: string HTTPRequest) =
     Return (NewHTTPRequest\<lparr>Host := ''example.com'', Path := ''/p'',
                            QueryString := Some [''a'' \<mapsto> [''1''], ''b'' \<mapsto> [''2'']]\<rparr>)"
  by (simp add: WithURL_def plain_platform_def codec_platform_def Values_Set_def NewHTTPRequest_def)

text \<open>
  Two calls on the same concern need not commute: the values under one key and the
  cookies keep the order of the calls.
\<close>

lemma configure_same_key_keeps_order:
  "configure P [CallWithQueryString ''a'' ''1'', CallWithQueryString ''a'' ''2''] NewHTTPRequest
     = Return (NewHTTPRequest\<lparr>QueryString := Some [''a'' \<mapsto> [''1'', ''2'']]\<rparr>)"
  "configure P [CallWithQueryString ''a'' ''2'', CallWithQueryString ''a'' ''1''] NewHTTPRequest
     = Return (NewHTTPRequest\<lparr>QueryString := Some [''a'' \<mapsto> [''2'', ''1'']]\<rparr>)"
  by (simp_all add: configure_def then_call_def WithQueryString_def Values_Add_def
      Values_lookup_def NewHTTPRequest_def)

lemma configure_cookies_keep_order:
  "configure P [CallWithCookie c, CallWithCookie d] NewHTTPRequest
     = Return (NewHTTPRequest\<lparr>Cookies := [c, d]\<rparr>)"
  by (simp add: configure_def then_call_def WithCookie_def NewHTTPRequest_def)

lemma configure_example_calls:
  "configure plain_platform example_calls (NewHTTPRequest :: string HTTPRequest) =
     Return (NewHTTPRequest
       \<lparr>Host := ''example.com'', Path := ''/p'',
        QueryString := Some [''a'' \<mapsto> [''1''], ''b'' \<mapsto> [''2'']],
        Header := Some [''Accept'' \<mapsto> [''text/plain''], ''X-Id'' \<mapsto> [''7'']],
        Cookies := [''session=1''], Verb := ''POST'', ContentType := ''application/json'',
        Timeout := 5, Body := ''true'', Logger := Some StdoutLogger, LogLevel := 1,
        transport := Some failing_dial_transport,
        outgoingRequestHandler := Some (Callback 1)\<rparr>)"
  by (simp add: example_calls_def configure_def then_call_def setter_eqs
      Header_Set_def Values_Add_def Values_lookup_def NewHTTPRequest_def or_empty_def
      plain_platform_def codec_platform_def serializeJSON_def bool_Marshal_def
      HTTPRequestLogLevelErrors_def)

text \<open>Facts about the further example requests.\<close>

lemma nil_meta_request_fields:
  "mockHandler nil_meta_request =
     Some (\<lambda>verb u. (True, None, [], Some (External ''forced failure'')))"
  "Verb nil_meta_request = ''GET''"
  "outgoingRequestHandler nil_meta_request = None"
  "Logger nil_meta_request = None"
  by (simp_all add: nil_meta_request_def WithMockedResponse_def NewHTTPRequest_def)

lemma CreateHTTPRequest_nil_meta_request:
  "CreateHTTPRequest plain_platform nil_meta_request = Inr plain_get"
  by (simp add: CreateHTTPRequest_def CreateURL_def RequestBody_def Headers_def Let_def
      nil_meta_request_def WithMockedResponse_def NewHTTPRequest_def
      plain_platform_def codec_platform_def plain_get_def isEmpty_def)

lemma logRequest_nil_meta_request: "logRequest plain_platform nil_meta_request = []"
  by (simp add: logRequest_def hr_logf_def nil_meta_request_fields)

lemma unmatched_mock_request_fields:
  "mockHandler unmatched_mock_request = Some (\<lambda>verb u. (False, None, [], None))"
  "transport unmatched_mock_request = Some failing_dial_transport"
  "Timeout unmatched_mock_request = 0"
  "Logger unmatched_mock_request = None"
  "outgoingRequestHandler unmatched_mock_request = None"
  "Verb unmatched_mock_request = ''GET''"
  by (simp_all add: unmatched_mock_request_def WithTransport_def WithMockedResponse_def
      NewHTTPRequest_def)

lemma CreateHTTPRequest_unmatched_mock_request:
  "CreateHTTPRequest plain_platform unmatched_mock_request = Inr plain_get"
  by (simp add: CreateHTTPRequest_def CreateURL_def RequestBody_def Headers_def Let_def
      unmatched_mock_request_def WithTransport_def WithMockedResponse_def NewHTTPRequest_def
      plain_platform_def codec_platform_def plain_get_def isEmpty_def)

lemma number_echo_request_fields:
  "mockHandler number_echo_request =
     Some (\<lambda>verb u. (True, Some ok_meta, fst (serializeJSON number_platform Int_1), None))"
  "Verb number_echo_request = ''GET''"
  "outgoingRequestHandler number_echo_request = None"
  "incomingResponseHandler number_echo_request = None"
  "Logger number_echo_request = None"
  by (simp_all add: number_echo_request_def WithMockedResponse_def NewHTTPRequest_def)

lemma CreateHTTPRequest_number_echo_request:
  "CreateHTTPRequest number_platform number_echo_request = Inr plain_get"
  by (simp add: CreateHTTPRequest_def CreateURL_def RequestBody_def Headers_def Let_def
      number_echo_request_def WithMockedResponse_def NewHTTPRequest_def
      number_platform_def codec_platform_def plain_get_def isEmpty_def)

lemma logRequest_number_echo_request: "logRequest number_platform number_echo_request = []"
  by (simp add: logRequest_def hr_logf_def number_echo_request_fields)

text \<open>
  When the request is assembled and no mock answers, \<open>FetchRawResponse\<close> is the request
  log, the call of the handler if there is one, and the round trip.
\<close>

lemma FetchRawResponse_round_trip:
  assumes "CreateHTTPRequest P hr = Inr req" and "\<not> mock_answers P hr req"
  shows "FetchRawResponse P hr =
           (logRequest P hr @ mock_call_events P hr req @ fst (client_round_trip P hr req),
            snd (client_round_trip P hr req))"
  using assms
  by (auto simp add: FetchRawResponse_def mock_answers_def mock_call_events_def Let_def
      split: option.splits prod.splits)

subsection \<open>Body and post data together\<close>

text \<open>
  C1. When both a raw body and post data are set (\<open>len(hr.Body) > 0\<close> and
  \<open>len(hr.PostData) > 0\<close>), \<open>CreateHTTPRequest\<close> fails with the error "Cant set both a
  body and have post data.", and so do \<open>FetchRawResponse\<close> and every operation built on
  it; the trace of each is empty: no hook, no mock handler, no transport resolution and
  no \<open>client.Do\<close>.
\<close>

theorem body_and_post_data_conflict:
  assumes "0 < length (Body hr)" and "0 < Values_len (PostData hr)"
  shows "CreateHTTPRequest P hr = Inl (exception_New ''Cant set both a body and have post data.'')
       \<and> FetchRawResponse P hr =
           ([], Return (None, Some (exception_New ''Cant set both a body and have post data.'')))
       \<and> ExecuteWithMeta P hr =
           ([], Return (Some (NewHTTPResponseMeta None),
                        Some (exception_New ''Cant set both a body and have post data.'')))
       \<and> FetchStringWithMeta P hr =
           ([], Return ([], Some (NewHTTPResponseMeta None),
                        Some (exception_New ''Cant set both a body and have post data.'')))
       \<and> deserialize P hr handler w =
           ([], Return (Some (NewHTTPResponseMeta None),
                        Some (exception_New ''Cant set both a body and have post data.'')), w)
       \<and> deserializeWithError P hr okHandler errorHandler w =
           ([], Return (Some (NewHTTPResponseMeta None),
                        Some (exception_New ''Cant set both a body and have post data.'')), w)"
proof -
  have c: "CreateHTTPRequest P hr = Inl (exception_New ''Cant set both a body and have post data.'')"
    using assms by (rule CreateHTTPRequest_conflict)
  have f: "FetchRawResponse P hr =
           ([], Return (None, Some (exception_New ''Cant set both a body and have post data.'')))"
    by (simp add: FetchRawResponse_def c)
  show ?thesis
    by (simp add: c f ExecuteWithMeta_def FetchStringWithMeta_def deserialize_def
        deserializeWithError_def)
qed

theorem body_and_post_data_conflict_witness:
  "FetchRawResponse plain_platform conflicting_request =
     ([], Return (None, Some (exception_New ''Cant set both a body and have post data.'')))"
proof -
  have b: "0 < length (Body conflicting_request)"
    by (simp add: conflicting_request_fields)
  have p: "0 < Values_len (PostData conflicting_request)"
    by (simp add: conflicting_request_fields Values_len_def)
  from body_and_post_data_conflict [OF b p, of plain_platform] show ?thesis
    by (rule conjunct1 [OF conjunct2])
qed

subsection \<open>The mock handler\<close>

text \<open>
  When the handler reports a match and returns a meta, \<open>FetchRawResponse\<close> does nothing
  but fire the request hook and log line and call the handler: no event of its trace
  belongs to transport resolution or to \<open>client.Do\<close>, whatever transport the request
  carries, and the response is built from the handler's results alone: status code and
  headers from the returned meta, body and content length from the returned bytes, the
  error wrapped.
\<close>

lemma mock_match_with_meta:
  assumes "CreateHTTPRequest P hr = Inr req"
    and "mockHandler hr = Some handler"
    and "handler (Verb hr) (req_URL P req) = (True, Some m, mockedResponse, mockedResponseErr)"
  shows "FetchRawResponse P hr =
           (logRequest P hr @ [MockCalled (Verb hr) (req_URL P req)],
            Return (Some \<lparr>res_StatusCode = meta_StatusCode m,
                          res_ContentLength = int (length mockedResponse),
                          res_Header = meta_Headers m,
                          res_Body = Some (ioutil_NopCloser mockedResponse)\<rparr>,
                    exception_Wrap mockedResponseErr))
       \<and> (\<forall>e \<in> set (fst (FetchRawResponse P hr)). \<not> transport_event e)"
proof -
  have f: "FetchRawResponse P hr =
           (logRequest P hr @ [MockCalled (Verb hr) (req_URL P req)],
            Return (Some \<lparr>res_StatusCode = meta_StatusCode m,
                          res_ContentLength = int (length mockedResponse),
                          res_Header = meta_Headers m,
                          res_Body = Some (ioutil_NopCloser mockedResponse)\<rparr>,
                    exception_Wrap mockedResponseErr))"
    using assms by (simp add: FetchRawResponse_def Let_def)
  have "\<forall>e \<in> set (logRequest P hr @ [MockCalled (Verb hr) (req_URL P req)]). \<not> transport_event e"
    by (auto dest: logRequest_no_transport_event)
  with f show ?thesis by simp
qed

lemma mock_match_with_meta_example:
  "transport mocked_request = Some failing_dial_transport
   \<and> FetchRawResponse plain_platform mocked_request =
       ([MockCalled ''GET'' (pr_URL plain_get)], Return (Some not_found_response, None))"
  by (simp add: Fetch_mocked_request mocked_request_fields)

text \<open>
  C2. What the source does when the handler reports a match and returns a nil meta
  pointer, as a handler that only wants to force an error does: \<open>FetchRawResponse\<close>
  reads the headers and the status code through the pointer without a nil check (the
  response pointer gets such a check in \<open>NewHTTPResponseMeta\<close>) and panics. No
  response is synthesized from the returned payload and error, which is what the claim
  states for every match; no transport has been consulted by then.
\<close>

theorem mock_match_nil_meta_panics:
  assumes "CreateHTTPRequest P hr = Inr req"
    and "mockHandler hr = Some handler"
    and "handler (Verb hr) (req_URL P req) = (True, None, mockedResponse, mockedResponseErr)"
  shows "FetchRawResponse P hr =
           (logRequest P hr @ [MockCalled (Verb hr) (req_URL P req)], Panic NilDereference)"
  using assms by (simp add: FetchRawResponse_def Let_def)

theorem mock_match_nil_meta_panics_witness:
  "FetchRawResponse plain_platform nil_meta_request =
     ([MockCalled ''GET'' (pr_URL plain_get)], Panic NilDereference)"
proof -
  have h: "(\<lambda>verb u. (True, None :: HTTPResponseMeta option, [] :: bytes,
                       Some (External ''forced failure'')))
             (Verb nil_meta_request) (req_URL plain_platform plain_get)
           = (True, None, [], Some (External ''forced failure''))"
    by simp
  have u: "req_URL plain_platform plain_get = pr_URL plain_get"
    by (simp add: plain_platform_def codec_platform_def)
  from mock_match_nil_meta_panics
         [OF CreateHTTPRequest_nil_meta_request nil_meta_request_fields(1) h]
  show ?thesis
    by (simp add: logRequest_nil_meta_request nil_meta_request_fields u)
qed

subsection \<open>WithURL on a parameter without an equals sign\<close>

text \<open>
  C3. What the source does on the inputs of the claim: when the raw query of the parsed
  URL has a non-empty parameter without \<open>=\<close>, \<open>strings.Split(param, "=")\<close> has one
  element and \<open>keyValue[1]\<close> is out of range, so \<open>WithURL\<close> panics instead of storing the
  key with an empty value.
\<close>

theorem WithURL_bare_key_panics:
  assumes "url_Parse P urlString = Some u"
    and "param \<in> set (strings_Split (url_RawQuery u) (CHR ''&''))"
    and "param \<noteq> []"
    and "CHR ''='' \<notin> set param"
  shows "WithURL P urlString hr = Panic IndexOutOfRange"
  using assms by (simp add: WithURL_def Let_def WithURL_params_bare_key)

theorem WithURL_bare_key_panics_witness:
  "WithURL plain_platform ''http://example.com/p?a&b=2'' (NewHTTPRequest :: string HTTPRequest)
     = Panic IndexOutOfRange"
proof -
  have p: "url_Parse plain_platform ''http://example.com/p?a&b=2'' =
      Some \<lparr>url_Scheme = ''http'', url_Host = ''example.com'', url_Path = ''/p'',
             url_RawQuery = ''a&b=2''\<rparr>"
    by (simp add: plain_platform_def codec_platform_def)
  have m: "''a'' \<in> set (strings_Split (url_RawQuery \<lparr>url_Scheme = ''http'', url_Host = ''example.com'', url_Path = ''/p'',
             url_RawQuery = ''a&b=2''\<rparr>) (CHR ''&''))"
    by simp
  have n: "''a'' \<noteq> []" by simp
  have e: "CHR ''='' \<notin> set ''a''" by simp
  show ?thesis
    by (rule WithURL_bare_key_panics [OF p m n e])
qed

subsection \<open>Fetching with an error handler\<close>

text \<open>
  C4. When the response has arrived without error and its body has been read,
  \<open>deserializeWithError\<close> runs the success deserializer on the body exactly when the
  status code is 200 and the error deserializer for every other status code. For
  \<open>FetchJSONToObjectWithErrorHandler\<close> this means: with status 200 the body is decoded
  into the success destination, with any other status into the error destination, and
  then the success destination (a different object) keeps its value.
\<close>

theorem error_handler_dispatch:
  assumes "FetchRawResponse P hr = (t, Return (Some r, None))"
    and "res_Body r = Some rc"
    and "ioutil_ReadAll rc = (body, None)"
  shows "deserializeWithError P hr (Some okHandler) (Some errorHandler) w =
           (t @ logResponse hr ((NewHTTPResponseMeta (Some r))\<lparr>meta_ContentLength := int (length body)\<rparr>) body
              @ [BodyClosed],
            Return (Some ((NewHTTPResponseMeta (Some r))\<lparr>meta_ContentLength := int (length body)\<rparr>),
                    exception_Wrap (fst ((if res_StatusCode r = 200 then okHandler else errorHandler) body w))),
            snd ((if res_StatusCode r = 200 then okHandler else errorHandler) body w))
       \<and> snd (snd (FetchJSONToObjectWithErrorHandler P successObject errorObject hr store)) =
           (if res_StatusCode r = 200
            then store(successObject := fst (json_Decode P body (store successObject)))
            else store(errorObject := fst (json_Decode P body (store errorObject))))
       \<and> (res_StatusCode r \<noteq> 200 \<and> successObject \<noteq> errorObject \<longrightarrow>
            snd (snd (FetchJSONToObjectWithErrorHandler P successObject errorObject hr store)) successObject
              = store successObject)"
proof -
  have a: "deserializeWithError P hr (Some okHandler) (Some errorHandler) w =
           (t @ logResponse hr ((NewHTTPResponseMeta (Some r))\<lparr>meta_ContentLength := int (length body)\<rparr>) body
              @ [BodyClosed],
            Return (Some ((NewHTTPResponseMeta (Some r))\<lparr>meta_ContentLength := int (length body)\<rparr>),
                    exception_Wrap (fst ((if res_StatusCode r = 200 then okHandler else errorHandler) body w))),
            snd ((if res_StatusCode r = 200 then okHandler else errorHandler) body w))"
    by (rule deserializeWithError_read [OF assms])
  have b: "snd (snd (FetchJSONToObjectWithErrorHandler P successObject errorObject hr store)) =
           (if res_StatusCode r = 200
            then store(successObject := fst (json_Decode P body (store successObject)))
            else store(errorObject := fst (json_Decode P body (store errorObject))))"
    by (cases "res_StatusCode r = 200")
       (simp_all add: FetchJSONToObjectWithErrorHandler_def deserializeWithError_read [OF assms]
          newJSONDeserializer_store)
  from a b show ?thesis by simp
qed

theorem error_handler_dispatch_witness:
  "snd (snd (FetchJSONToObjectWithErrorHandler plain_platform (0::nat) 1 mocked_request (\<lambda>a. True)))
     = (\<lambda>a. True)(1 := False)"
proof -
  have b: "res_Body not_found_response = Some (ioutil_NopCloser ''false'')"
    by (simp add: not_found_response_def)
  have r: "ioutil_ReadAll (ioutil_NopCloser ''false'') = (''false'', None)"
    by (simp add: ioutil_ReadAll_def ioutil_NopCloser_def)
  have s: "res_StatusCode not_found_response = 404"
    by (simp add: not_found_response_def)
  have d: "json_Decode plain_platform ''false'' True = (False, None)"
    by (simp add: plain_platform_def codec_platform_def bool_Decode_def)
  from error_handler_dispatch [OF Fetch_mocked_request b r]
  have "snd (snd (FetchJSONToObjectWithErrorHandler plain_platform (0::nat) 1 mocked_request (\<lambda>a. True))) =
           (if res_StatusCode not_found_response = 200
            then (\<lambda>a. True)(0 := fst (json_Decode plain_platform ''false'' ((\<lambda>a. True) 0)))
            else (\<lambda>a. True)(1 := fst (json_Decode plain_platform ''false'' ((\<lambda>a. True) 1))))"
    by (rule conjunct1 [OF conjunct2])
  then show ?thesis
    by (simp add: s d)
qed

subsection \<open>JSON round trip through a mocked response\<close>

text \<open>
  C5, as the code has it. Let \<open>v\<close> be an object that the JSON codec serializes without
  error to bytes which it decodes back to \<open>v\<close>. If the mock handler of a request answers
  with exactly these bytes, \<open>FetchJSONToObject\<close> returns no error and leaves \<open>v\<close> in the
  destination: the bytes pass from the serializer through the mocked response and the
  body reader to the decoder unchanged.
\<close>

theorem json_round_trip:
  assumes "serializeJSON P v = (bs, None)"
    and "json_Decode P bs (store destination) = (v, None)"
    and "CreateHTTPRequest P hr = Inr req"
    and "mockHandler hr = Some handler"
    and "handler (Verb hr) (req_URL P req) = (True, Some m, bs, None)"
  shows "snd (FetchJSONToObject P destination hr store) = (Return None, store(destination := v))"
proof -
  have f: "FetchRawResponse P hr =
          (logRequest P hr @ [MockCalled (Verb hr) (req_URL P req)],
           Return (Some \<lparr>res_StatusCode = meta_StatusCode m,
                         res_ContentLength = int (length bs),
                         res_Header = meta_Headers m,
                         res_Body = Some (ioutil_NopCloser bs)\<rparr>, None))"
    using assms(3-5) by (simp add: FetchRawResponse_def Let_def exception_Wrap_def)
  have r: "ioutil_ReadAll (ioutil_NopCloser bs) = (bs, None)"
    by (simp add: ioutil_ReadAll_def ioutil_NopCloser_def)
  have d: "newJSONDeserializer P destination bs store = (None, store(destination := v))"
    using assms(2) by (simp add: newJSONDeserializer_def deserializeJSON_def exception_Wrap_def)
  show ?thesis
    by (simp add: FetchJSONToObject_def deserialize_read [OF f _ r] d exception_Wrap_def)
qed

theorem json_round_trip_witness:
  "snd (FetchJSONToObject plain_platform (0::nat) echo_request (\<lambda>a. False))
     = (Return None, (\<lambda>a. False)(0 := True))"
proof -
  have s: "serializeJSON plain_platform True = (''true'', None)"
    by (simp add: serializeJSON_def plain_platform_def codec_platform_def bool_Marshal_def)
  have d: "json_Decode plain_platform ''true'' ((\<lambda>a::nat. False) 0) = (True, None)"
    by (simp add: plain_platform_def codec_platform_def bool_Decode_def)
  have h: "(\<lambda>verb u. (True, Some ok_meta, fst (serializeJSON plain_platform True), None :: error option))
             (Verb echo_request) (req_URL plain_platform plain_get)
           = (True, Some ok_meta, ''true'', None)"
    by (simp add: s)
  note th = json_round_trip
    [where P = plain_platform and v = True and bs = "''true''" and store = "\<lambda>a. False"
       and destination = "0::nat" and hr = echo_request and req = plain_get
       and handler = "\<lambda>verb u. (True, Some ok_meta, fst (serializeJSON plain_platform True), None)"
       and m = ok_meta]
  from th s d h CreateHTTPRequest_echo_request echo_request_fields(1) show ?thesis
    by simp
qed

text \<open>
  C5 as stated fails: serialization succeeds for the integer 1 held in an
  \<open>interface{}\<close>, the mock echoes exactly the serialized bytes, \<open>FetchJSONToObject\<close>
  returns no error, and the destination holds the float 1, which is not the original.
\<close>

theorem json_round_trip_loses_int:
  "serializeJSON number_platform Int_1 = (''1'', None)
   \<and> snd (FetchJSONToObject number_platform (0::nat) number_echo_request (\<lambda>a. Int_1))
       = (Return None, (\<lambda>a. Int_1)(0 := Float64_1))
   \<and> Float64_1 \<noteq> Int_1"
proof -
  have s: "serializeJSON number_platform Int_1 = (''1'', None)"
    by (simp add: serializeJSON_def number_platform_def codec_platform_def number_Marshal_def)
  have f: "FetchRawResponse number_platform number_echo_request =
             ([MockCalled ''GET'' (pr_URL plain_get)],
              Return (Some \<lparr>res_StatusCode = 200, res_ContentLength = 1, res_Header = Map.empty,
                            res_Body = Some (ioutil_NopCloser ''1'')\<rparr>, None))"
    by (simp add: FetchRawResponse_def CreateHTTPRequest_number_echo_request
        logRequest_number_echo_request number_echo_request_fields s)
       (simp add: number_platform_def codec_platform_def ok_meta_def exception_Wrap_def)
  have r: "ioutil_ReadAll (ioutil_NopCloser ''1'') = (''1'', None)"
    by (simp add: ioutil_ReadAll_def ioutil_NopCloser_def)
  have d: "newJSONDeserializer number_platform (0::nat) ''1'' (\<lambda>a. Int_1)
             = (None, (\<lambda>a. Int_1)(0 := Float64_1))"
    by (simp add: newJSONDeserializer_def deserializeJSON_def number_platform_def
        codec_platform_def number_Decode_def exception_Wrap_def)
  have "snd (FetchJSONToObject number_platform (0::nat) number_echo_request (\<lambda>a. Int_1))
       = (Return None, (\<lambda>a. Int_1)(0 := Float64_1))"
    by (simp add: FetchJSONToObject_def deserialize_read [OF f _ r] d exception_Wrap_def)
  with s show ?thesis by simp
qed

subsection \<open>Which transport the round trip uses\<close>

text \<open>
  C6, as the code has it. Whenever the execution reaches the round trip (the request was
  assembled and no mock handler answered: none is registered, or the registered one
  reported no match), the client of the round trip gets: the caller's transport as it is,
  when the request carries one; otherwise a transport built by \<open>createHTTPTransport\<close>
  (or the error of a failed certificate load) exactly when both TLS paths are non-empty or
  a creation hook is registered; otherwise no transport, that is the platform's default
  one. Keep-alive and the timeout have no part in the choice: the timeout is set on the
  client in every case.
\<close>

theorem transport_choice:
  assumes "CreateHTTPRequest P hr = Inr req" and "\<not> mock_answers P hr req"
  shows "(transport hr = Some tr \<longrightarrow>
            FetchRawResponse P hr =
              (logRequest P hr @ mock_call_events P hr req
                 @ hr_log hr HTTPRequestLogLevelDebug Using_Provided_Transport
                 @ [ClientDo \<lparr>client_Transport = Some tr, client_Timeout = Timeout hr\<rparr> req],
               Return (fst (client_Do P \<lparr>client_Transport = Some tr, client_Timeout = Timeout hr\<rparr> req),
                       exception_Wrap (snd (client_Do P \<lparr>client_Transport = Some tr, client_Timeout = Timeout hr\<rparr> req)))))
       \<and> (transport hr = None \<and> createTransportHandler hr = None
            \<and> (isEmpty (TLSCertPath hr) \<or> isEmpty (TLSKeyPath hr)) \<longrightarrow>
            FetchRawResponse P hr =
              (logRequest P hr @ mock_call_events P hr req
                 @ [ClientDo \<lparr>client_Transport = None, client_Timeout = Timeout hr\<rparr> req],
               Return (fst (client_Do P \<lparr>client_Transport = None, client_Timeout = Timeout hr\<rparr> req),
                       exception_Wrap (snd (client_Do P \<lparr>client_Transport = None, client_Timeout = Timeout hr\<rparr> req)))))
       \<and> (transport hr = None
            \<and> (createTransportHandler hr \<noteq> None
                \<or> (\<not> isEmpty (TLSCertPath hr) \<and> \<not> isEmpty (TLSKeyPath hr))) \<longrightarrow>
            (case createHTTPTransport P hr of
               (t, Inl err) \<Rightarrow>
                 FetchRawResponse P hr =
                   (logRequest P hr @ mock_call_events P hr req @ t,
                    Return (None, Some (Wrap_error err)))
             | (t, Inr built) \<Rightarrow>
                 FetchRawResponse P hr =
                   (logRequest P hr @ mock_call_events P hr req @ t
                      @ [ClientDo \<lparr>client_Transport = Some built, client_Timeout = Timeout hr\<rparr> req],
                    Return (fst (client_Do P \<lparr>client_Transport = Some built, client_Timeout = Timeout hr\<rparr> req),
                            exception_Wrap (snd (client_Do P \<lparr>client_Transport = Some built, client_Timeout = Timeout hr\<rparr> req))))))"
proof -
  have f: "FetchRawResponse P hr =
             (logRequest P hr @ mock_call_events P hr req @ fst (client_round_trip P hr req),
              snd (client_round_trip P hr req))"
    by (rule FetchRawResponse_round_trip [OF assms])
  show ?thesis
  proof (intro conjI impI)
    assume "transport hr = Some tr"
    then show "FetchRawResponse P hr =
              (logRequest P hr @ mock_call_events P hr req
                 @ hr_log hr HTTPRequestLogLevelDebug Using_Provided_Transport
                 @ [ClientDo \<lparr>client_Transport = Some tr, client_Timeout = Timeout hr\<rparr> req],
               Return (fst (client_Do P \<lparr>client_Transport = Some tr, client_Timeout = Timeout hr\<rparr> req),
                       exception_Wrap (snd (client_Do P \<lparr>client_Transport = Some tr, client_Timeout = Timeout hr\<rparr> req))))"
      by (simp add: f client_round_trip_def requiresCustomTransport_def
          getHTTPTransport_def client_Do_step_trace Let_def)
  next
    assume "transport hr = None \<and> createTransportHandler hr = None
              \<and> (isEmpty (TLSCertPath hr) \<or> isEmpty (TLSKeyPath hr))"
    then show "FetchRawResponse P hr =
              (logRequest P hr @ mock_call_events P hr req
                 @ [ClientDo \<lparr>client_Transport = None, client_Timeout = Timeout hr\<rparr> req],
               Return (fst (client_Do P \<lparr>client_Transport = None, client_Timeout = Timeout hr\<rparr> req),
                       exception_Wrap (snd (client_Do P \<lparr>client_Transport = None, client_Timeout = Timeout hr\<rparr> req))))"
      by (auto simp add: f client_round_trip_def requiresCustomTransport_def
          client_Do_step_trace Let_def)
  next
    assume a: "transport hr = None
              \<and> (createTransportHandler hr \<noteq> None
                  \<or> (\<not> isEmpty (TLSCertPath hr) \<and> \<not> isEmpty (TLSKeyPath hr)))"
    then have r: "requiresCustomTransport hr"
      by (auto simp add: requiresCustomTransport_def)
    from a have g: "getHTTPTransport P hr = createHTTPTransport P hr"
      by (simp add: getHTTPTransport_def)
    show "case createHTTPTransport P hr of
               (t, Inl err) \<Rightarrow>
                 FetchRawResponse P hr =
                   (logRequest P hr @ mock_call_events P hr req @ t,
                    Return (None, Some (Wrap_error err)))
             | (t, Inr built) \<Rightarrow>
                 FetchRawResponse P hr =
                   (logRequest P hr @ mock_call_events P hr req @ t
                      @ [ClientDo \<lparr>client_Transport = Some built, client_Timeout = Timeout hr\<rparr> req],
                    Return (fst (client_Do P \<lparr>client_Transport = Some built, client_Timeout = Timeout hr\<rparr> req),
                            exception_Wrap (snd (client_Do P \<lparr>client_Transport = Some built, client_Timeout = Timeout hr\<rparr> req))))"
      using r
      by (simp add: f client_round_trip_def g client_Do_step_trace Let_def
          split: prod.splits sum.splits)
  qed
qed

theorem transport_choice_witness:
  "FetchRawResponse plain_platform unmatched_mock_request =
     ([MockCalled ''GET'' (pr_URL plain_get),
       ClientDo \<lparr>client_Transport = Some failing_dial_transport, client_Timeout = 0\<rparr> plain_get],
      Return (None, Some (Wrapped (External ''dial tcp: connection refused''))))"
proof -
  have n: "\<not> mock_answers plain_platform unmatched_mock_request plain_get"
    by (simp add: mock_answers_def unmatched_mock_request_fields)
  note th = transport_choice
    [OF CreateHTTPRequest_unmatched_mock_request n, where tr = failing_dial_transport]
  have l: "logRequest plain_platform unmatched_mock_request = []"
    by (simp add: logRequest_def hr_logf_def unmatched_mock_request_fields)
  have m: "mock_call_events plain_platform unmatched_mock_request plain_get
             = [MockCalled ''GET'' (pr_URL plain_get)]"
    by (simp add: mock_call_events_def unmatched_mock_request_fields plain_platform_def
        codec_platform_def)
  have g: "hr_log unmatched_mock_request HTTPRequestLogLevelDebug Using_Provided_Transport
             = ([] :: plain_request event list)"
    by (simp add: hr_log_def unmatched_mock_request_fields)
  have d: "client_Do plain_platform c r = (None, Some (External ''dial tcp: connection refused''))"
    for c r
    by (simp add: plain_platform_def codec_platform_def)
  from th unmatched_mock_request_fields(2) show ?thesis
    by (simp add: l m g d unmatched_mock_request_fields(3) exception_Wrap_def)
qed

text \<open>
  C6 as stated fails: a request that asks for keep-alive and a timeout, with no transport,
  hook or TLS paths, does not require a custom transport, and its round trip uses the
  default transport.
\<close>

theorem keepalive_timeout_default_transport:
  "KeepAlive keepalive_timeout_request
   \<and> Timeout keepalive_timeout_request = 5
   \<and> \<not> requiresCustomTransport keepalive_timeout_request
   \<and> FetchRawResponse plain_platform keepalive_timeout_request =
       ([ClientDo \<lparr>client_Transport = None, client_Timeout = 5\<rparr> keepalive_get],
        Return (None, Some (Wrapped (External ''dial tcp: connection refused''))))"
proof -
  have r: "\<not> requiresCustomTransport keepalive_timeout_request"
    by (simp add: requiresCustomTransport_def keepalive_timeout_request_fields isEmpty_def)
  have l: "logRequest plain_platform keepalive_timeout_request = []"
    by (simp add: logRequest_def hr_logf_def keepalive_timeout_request_fields)
  have d: "client_Do plain_platform c r = (None, Some (External ''dial tcp: connection refused''))"
    for c r
    by (simp add: plain_platform_def codec_platform_def)
  have f: "FetchRawResponse plain_platform keepalive_timeout_request =
       ([ClientDo \<lparr>client_Transport = None, client_Timeout = 5\<rparr> keepalive_get],
        Return (None, Some (Wrapped (External ''dial tcp: connection refused''))))"
    by (simp add: FetchRawResponse_def CreateHTTPRequest_keepalive_timeout_request l r d
        keepalive_timeout_request_fields client_round_trip_def client_Do_step_def
        exception_Wrap_def)
  from r f show ?thesis
    by (simp add: keepalive_timeout_request_fields)
qed

subsection \<open>URL assembly\<close>

text \<open>
  C7. \<open>CreateURL\<close> reads the request and does not change it. Its output does not
  depend on the order in which the runtime's \<open>range\<close> visits the keys of the query
  string, because \<open>Encode\<close> sorts the keys: for any two such orders the URL is the same
  (scheme, host, path and encoded query), so two calls without a mutation in between
  return identical URLs.
\<close>

theorem CreateURL_idempotent:
  assumes "range_order ks (QueryString hr)" and "range_order ks' (QueryString hr)"
  shows "CreateURL_range P ks hr = CreateURL_range P ks' hr
       \<and> CreateURL_range P ks hr = CreateURL P hr"
  using assms by (simp add: CreateURL_range_def CreateURL_def Values_Encode_range_order)

theorem CreateURL_idempotent_witness:
  "CreateURL_range plain_platform [''a'', ''b''] two_param_request =
     CreateURL_range plain_platform [''b'', ''a''] two_param_request"
proof -
  have a: "range_order [''a'', ''b''] (QueryString two_param_request)"
    by (auto simp add: range_order_def two_param_request_QueryString)
  have b: "range_order [''b'', ''a''] (QueryString two_param_request)"
    by (auto simp add: range_order_def two_param_request_QueryString)
  from CreateURL_idempotent [OF a b] show ?thesis
    by (rule conjunct1)
qed

subsection \<open>Order of independent configuration calls\<close>

text \<open>
  C8. Let two lists of configuration calls, over all the fluent setters of the package,
  be permutations of each other, the calls being pairwise independent (no two of them
  write the same concern). Applied to the request made by \<open>NewHTTPRequest\<close> they give
  the same outcome: the same request, field for field, and therefore the same assembled
  \<open>http.Request\<close>, or the same panic of \<open>WithURL\<close>.
\<close>

theorem configuration_order_irrelevant:
  assumes "mset calls = mset calls'"
    and "\<forall>c \<in> set calls. \<forall>d \<in> set calls. c \<noteq> d \<longrightarrow> independent P c d"
  shows "configure P calls NewHTTPRequest = configure P calls' NewHTTPRequest
       \<and> (case configure P calls NewHTTPRequest of
             Panic p \<Rightarrow> configure P calls' NewHTTPRequest = Panic p
           | Return hr \<Rightarrow>
               (\<exists>hr'. configure P calls' NewHTTPRequest = Return hr'
                     \<and> CreateHTTPRequest P hr' = CreateHTTPRequest P hr))"
proof -
  have e: "configure P calls NewHTTPRequest = configure P calls' NewHTTPRequest"
    by (rule configure_permuted [OF assms])
  show ?thesis
    by (simp add: e [symmetric] split: outcome.splits)
qed

theorem configuration_order_irrelevant_witness:
  "configure plain_platform example_calls (NewHTTPRequest :: string HTTPRequest)
     = configure plain_platform (rev example_calls) NewHTTPRequest"
proof -
  have m: "mset example_calls = mset (rev example_calls)"
    by simp
  have i: "\<forall>c \<in> set example_calls. \<forall>d \<in> set example_calls.
             c \<noteq> d \<longrightarrow> independent plain_platform c d"
    by (simp add: example_calls_def independent_def plain_platform_def codec_platform_def)
  from configuration_order_irrelevant [OF m i] show ?thesis
    by (rule conjunct1)
qed

subsection \<open>Content length\<close>

text \<open>
  C9. The meta built from a response carries the response's declared content length.
  On each body-reading path (\<open>FetchStringWithMeta\<close>, \<open>deserialize\<close>,
  \<open>deserializeWithError\<close>), once the body has been read in full, the meta that is
  returned is that meta with the content length overwritten by the number of bytes read,
  whatever the declared length was.
\<close>

theorem content_length_is_bytes_read:
  assumes "FetchRawResponse P hr = (t, Return (Some r, None))"
    and "res_Body r = Some rc"
    and "ioutil_ReadAll rc = (bs, None)"
  shows "meta_ContentLength (NewHTTPResponseMeta (Some r)) = res_ContentLength r
       \<and> FetchStringWithMeta P hr =
           (t @ logResponse hr ((NewHTTPResponseMeta (Some r))\<lparr>meta_ContentLength := int (length bs)\<rparr>) bs
              @ [BodyClosed],
            Return (bs, Some ((NewHTTPResponseMeta (Some r))\<lparr>meta_ContentLength := int (length bs)\<rparr>), None))
       \<and> (\<exists>err. fst (snd (deserialize P hr handler w)) =
            Return (Some ((NewHTTPResponseMeta (Some r))\<lparr>meta_ContentLength := int (length bs)\<rparr>), err))
       \<and> (\<exists>err. fst (snd (deserializeWithError P hr okHandler errorHandler w)) =
            Return (Some ((NewHTTPResponseMeta (Some r))\<lparr>meta_ContentLength := int (length bs)\<rparr>), err))"
proof (intro conjI)
  show "meta_ContentLength (NewHTTPResponseMeta (Some r)) = res_ContentLength r"
    by (rule meta_ContentLength_declared)
  show "FetchStringWithMeta P hr =
           (t @ logResponse hr ((NewHTTPResponseMeta (Some r))\<lparr>meta_ContentLength := int (length bs)\<rparr>) bs
              @ [BodyClosed],
            Return (bs, Some ((NewHTTPResponseMeta (Some r))\<lparr>meta_ContentLength := int (length bs)\<rparr>), None))"
    using assms by (simp add: FetchStringWithMeta_def Let_def)
  show "\<exists>err. fst (snd (deserialize P hr handler w)) =
            Return (Some ((NewHTTPResponseMeta (Some r))\<lparr>meta_ContentLength := int (length bs)\<rparr>), err)"
    using assms by (simp add: deserialize_def Let_def split: option.splits prod.splits)
  show "\<exists>err. fst (snd (deserializeWithError P hr okHandler errorHandler w)) =
            Return (Some ((NewHTTPResponseMeta (Some r))\<lparr>meta_ContentLength := int (length bs)\<rparr>), err)"
    using assms by (simp add: deserializeWithError_def Let_def split: option.splits prod.splits)
qed

theorem content_length_is_bytes_read_witness:
  "res_ContentLength chunked_response = - 1
   \<and> FetchStringWithMeta chunked_platform (NewHTTPRequest :: string HTTPRequest) =
       ([ClientDo default_client plain_get, BodyClosed],
        Return (''true'',
                Some \<lparr>meta_StatusCode = 200, meta_ContentLength = 4, meta_ContentEncoding = [],
                      meta_ContentType = [], meta_Headers = Map.empty\<rparr>,
                None))"
proof -
  have b: "res_Body chunked_response = Some \<lparr>rc_data = ''true'', rc_read_err = None, rc_close_err = None\<rparr>"
    by (simp add: chunked_response_def)
  have r: "ioutil_ReadAll \<lparr>rc_data = ''true'', rc_read_err = None, rc_close_err = None\<rparr> = (''true'', None)"
    by (simp add: ioutil_ReadAll_def)
  have m: "(NewHTTPResponseMeta (Some chunked_response))\<lparr>meta_ContentLength := 4\<rparr> =
      \<lparr>meta_StatusCode = 200, meta_ContentLength = 4, meta_ContentEncoding = [],
                      meta_ContentType = [], meta_Headers = Map.empty\<rparr>"
    by (simp add: NewHTTPResponseMeta_def chunked_response_def)
  have l: "logResponse (NewHTTPRequest :: string HTTPRequest) mm bb = ([] :: plain_request event list)" for mm bb
    by (simp add: logResponse_def hr_logf_def NewHTTPRequest_def)
  from content_length_is_bytes_read [OF Fetch_chunked_NewHTTPRequest b r]
  have "FetchStringWithMeta chunked_platform (NewHTTPRequest :: string HTTPRequest) =
           ([ClientDo default_client plain_get] @ logResponse (NewHTTPRequest :: string HTTPRequest) ((NewHTTPResponseMeta (Some chunked_response))\<lparr>meta_ContentLength := int (length ''true'')\<rparr>) ''true''
              @ [BodyClosed],
            Return (''true'', Some ((NewHTTPResponseMeta (Some chunked_response))\<lparr>meta_ContentLength := int (length ''true'')\<rparr>), None))"
    by (rule conjunct1 [OF conjunct2])
  moreover have "res_ContentLength chunked_response = - 1"
    by (simp add: chunked_response_def)
  ultimately show ?thesis
    by (simp add: m l)
qed

subsection \<open>The meta of an absent response\<close>

text \<open>
  C10. \<open>NewHTTPResponseMeta\<close> of a nil response is the zero meta (status code 0, content
  length 0, empty content type and encoding, no headers). Hence, when
  \<open>FetchRawResponse\<close> returns no response, \<open>ExecuteWithMeta\<close> still returns a non-nil
  meta, the zero one, with the wrapped error, and so do the fetch operations that build a
  meta after a failed request.
\<close>

theorem NewHTTPResponseMeta_absent_response:
  "NewHTTPResponseMeta None =
     \<lparr>meta_StatusCode = 0, meta_ContentLength = 0, meta_ContentEncoding = [],
      meta_ContentType = [], meta_Headers = Map.empty\<rparr>
   \<and> (FetchRawResponse P hr = (t, Return (None, err)) \<longrightarrow>
        ExecuteWithMeta P hr = (t, Return (Some (NewHTTPResponseMeta None), exception_Wrap err)))
   \<and> (FetchRawResponse P hr = (t, Return (None, Some e)) \<longrightarrow>
        FetchStringWithMeta P hr = (t, Return ([], Some (NewHTTPResponseMeta None), Some (Wrap_error e)))
        \<and> deserialize P hr handler w = (t, Return (Some (NewHTTPResponseMeta None), Some (Wrap_error e)), w)
        \<and> deserializeWithError P hr okHandler errorHandler w =
            (t, Return (Some (NewHTTPResponseMeta None), Some (Wrap_error e)), w))"
  by (simp add: NewHTTPResponseMeta_None ExecuteWithMeta_def FetchStringWithMeta_def
      deserialize_def deserializeWithError_def exception_Wrap_def)

theorem NewHTTPResponseMeta_absent_response_witness:
  "ExecuteWithMeta plain_platform (NewHTTPRequest :: string HTTPRequest) =
     ([ClientDo default_client plain_get],
      Return (Some \<lparr>meta_StatusCode = 0, meta_ContentLength = 0, meta_ContentEncoding = [],
                    meta_ContentType = [], meta_Headers = Map.empty\<rparr>,
              Some (Wrapped (External ''dial tcp: connection refused''))))"
proof -
  note th = NewHTTPResponseMeta_absent_response
    [of plain_platform "NewHTTPRequest :: string HTTPRequest" "[ClientDo default_client plain_get]"
        "Some (Wrapped (External ''dial tcp: connection refused''))"]
  from th have z: "NewHTTPResponseMeta None =
     \<lparr>meta_StatusCode = 0, meta_ContentLength = 0, meta_ContentEncoding = [],
      meta_ContentType = [], meta_Headers = Map.empty\<rparr>"
    by (rule conjunct1)
  from th
  have "FetchRawResponse plain_platform (NewHTTPRequest :: string HTTPRequest) =
          ([ClientDo default_client plain_get],
           Return (None, Some (Wrapped (External ''dial tcp: connection refused'')))) \<longrightarrow>
        ExecuteWithMeta plain_platform (NewHTTPRequest :: string HTTPRequest) =
          ([ClientDo default_client plain_get],
           Return (Some (NewHTTPResponseMeta None),
                   exception_Wrap (Some (Wrapped (External ''dial tcp: connection refused'')))))"
    by (rule conjunct1 [OF conjunct2])
  from mp [OF this Fetch_plain_NewHTTPRequest] show ?thesis
    by (simp add: z exception_Wrap_def)
qed

end
